theory Spec2Isabelle
  imports Complex_Main
begin

section \<open>Errors\<close>

text \<open>
  Every \<^verbatim>\<open>raise\<close> of \<^verbatim>\<open>tcontrol/statespace.py\<close> and every exception of the numpy calls
  it makes is a value of this type. The \<^verbatim>\<open>ValueError\<close>s are told apart by the place
  that raises them (their message), since Python gives them all one class:
  \<^item> \<open>ValueError_wrong_shape_A\<close> .. \<open>ValueError_wrong_shape_D\<close>: the four checks of
    \<^verbatim>\<open>StateSpace.__init__\<close> ("wrong shape of A" ..);
  \<^item> \<open>ValueError_shapes_of_D\<close>: \<^verbatim>\<open>__add__\<close>, "shapes of D are not equal";
  \<^item> \<open>ValueError_outputs_inputs\<close>: \<^verbatim>\<open>__mul__\<close>, "outputs are not equal to inputs";
  \<^item> \<open>ValueError_sampling_time\<close>: \<^verbatim>\<open>__add__\<close> and \<^verbatim>\<open>__mul__\<close>, differing sampling times;
  \<^item> \<open>ValueError_not_aligned\<close>: numpy, a matrix product of shapes that do not fit;
  \<^item> \<open>ValueError_broadcast\<close>: numpy, operands that cannot be broadcast together;
  \<^item> \<open>ValueError_concatenate\<close>: numpy, \<^verbatim>\<open>concatenate\<close> of arrays whose other
    dimension differs;
  \<^item> \<open>LinAlgError\<close>: numpy.linalg, a matrix that is not square, or one that numpy's
    routine finds singular (or cannot decompose);
  \<^item> \<open>TypeError\<close>, \<open>IndexError\<close>: Python's.
\<close>

datatype error =
    ValueError_wrong_shape_A
  | ValueError_wrong_shape_B
  | ValueError_wrong_shape_C
  | ValueError_wrong_shape_D
  | ValueError_shapes_of_D
  | ValueError_outputs_inputs
  | ValueError_sampling_time
  | ValueError_not_aligned
  | ValueError_broadcast
  | ValueError_concatenate
  | LinAlgError
  | TypeError
  | IndexError

text \<open>
  The specification's error kinds, read off the raising place: a shape mismatch is any
  \<^verbatim>\<open>ValueError\<close> about the dimensions of the operands.
\<close>

fun is_ShapeMismatch :: "error \<Rightarrow> bool" where
  "is_ShapeMismatch ValueError_wrong_shape_A = True"
| "is_ShapeMismatch ValueError_wrong_shape_B = True"
| "is_ShapeMismatch ValueError_wrong_shape_C = True"
| "is_ShapeMismatch ValueError_wrong_shape_D = True"
| "is_ShapeMismatch ValueError_shapes_of_D = True"
| "is_ShapeMismatch ValueError_outputs_inputs = True"
| "is_ShapeMismatch ValueError_not_aligned = True"
| "is_ShapeMismatch ValueError_broadcast = True"
| "is_ShapeMismatch ValueError_concatenate = True"
| "is_ShapeMismatch _ = False"

definition bindE :: "error + 'a \<Rightarrow> ('a \<Rightarrow> error + 'b) \<Rightarrow> error + 'b" where
  "bindE m f = (case m of Inl e \<Rightarrow> Inl e | Inr x \<Rightarrow> f x)"

section \<open>Matrices and arrays\<close>

text \<open>
  A numpy matrix is two-dimensional: a shape, an element type (its \<^verbatim>\<open>dtype\<close>) and the
  elements inside the shape. The elements are numbers as numpy holds them: 64-bit
  integers, which wrap around, floating-point numbers with their rounding, infinities
  and NaN, and so on. Their type \<open>'a\<close> and the type \<open>'d\<close> of the element types are left
  open, and what numpy computes with them is a parameter of the model (the record
  \<open>numpy\<close> below).
  \<open>entry M i j\<close> is read only for \<open>i < nrows M\<close> and \<open>j < ncols M\<close>.
\<close>

datatype ('a, 'd) matrix =
  Matrix (nrows: nat) (ncols: nat) (dtype: 'd) (entry: "nat \<Rightarrow> nat \<Rightarrow> 'a")

definition shape :: "('a, 'd) matrix \<Rightarrow> nat \<times> nat" where
  "shape M = (nrows M, ncols M)"

definition to_rows :: "('a, 'd) matrix \<Rightarrow> 'a list list" where
  "to_rows M = map (\<lambda>i. map (\<lambda>j. entry M i j) [0..<ncols M]) [0..<nrows M]"

text \<open>
  \<^verbatim>\<open>np.matrix([[..], ..])\<close> of rows of one length whose elements have the type \<open>d\<close>; of the
  empty list numpy makes a matrix of shape \<open>(1, 0)\<close>.
\<close>

definition of_rows :: "'d \<Rightarrow> 'a list list \<Rightarrow> ('a, 'd) matrix" where
  "of_rows d rs =
     Matrix (if rs = [] then 1 else length rs) (if rs = [] then 0 else length (hd rs)) d
       (\<lambda>i j. rs ! i ! j)"

text \<open>A one-dimensional array: its length, its element type and its elements.\<close>

datatype ('a, 'd) ndarray = Ndarray (len: nat) (adtype: 'd) (elem: "nat \<Rightarrow> 'a")

text \<open>
  What numpy computes, as far as the code uses it. Each field is one primitive of the
  library; the definitions below add the shape rules and the errors, which do not depend
  on the elements.
  \<^item> \<open>float64\<close>, \<open>zero_f64\<close>, \<open>one_f64\<close>: the element type of \<^verbatim>\<open>np.zeros\<close>, \<^verbatim>\<open>np.ones\<close> and
    \<^verbatim>\<open>np.eye\<close>, and the elements \<open>0.0\<close> and \<open>1.0\<close>;
  \<^item> \<open>int_type\<close>, \<open>of_pyint\<close>: the element type that numpy gives a Python integer, and the
    element made of it;
  \<^item> \<open>astype d x\<close>: the element \<open>x\<close> converted to the element type \<open>d\<close>, as an assignment
    into an array of that type and \<^verbatim>\<open>np.concatenate\<close> do;
  \<^item> \<open>result_type d e\<close>: the element type of the result of an operation on arrays of the
    element types \<open>d\<close> and \<open>e\<close>;
  \<^item> \<open>scalar_add\<close>, \<open>scalar_sub\<close>, \<open>scalar_eq\<close>: \<^verbatim>\<open>+\<close>, \<^verbatim>\<open>-\<close> and \<^verbatim>\<open>==\<close> on two elements;
  \<^item> \<open>int_times k x\<close>: the product of the Python integer \<open>k\<close> and the element \<open>x\<close>, and
    \<open>int_times_type k d\<close>: the element type of \<open>k\<close> times an array of the type \<open>d\<close>;
    \<open>number_times\<close>, \<open>number_times_type\<close>: the same for a Python number (\<^verbatim>\<open>float\<close> or
    \<^verbatim>\<open>int\<close>) on the right;
  \<^item> \<open>dot_impl M N\<close>: the matrix product, for \<open>M\<close> with as many columns as \<open>N\<close> has rows;
    \<open>vecdot_impl v M\<close>: the product of a one-dimensional array and a matrix;
    \<open>power_impl M i\<close>: \<^verbatim>\<open>np.linalg.matrix_power\<close> of a square matrix;
  \<^item> \<open>inv_impl M\<close>: \<^verbatim>\<open>np.linalg.inv\<close> of a square matrix, \<open>None\<close> when numpy raises
    \<^verbatim>\<open>LinAlgError\<close>; \<open>pinv_impl M\<close>: \<^verbatim>\<open>np.linalg.pinv\<close>, \<open>None\<close> when it raises;
  \<^item> \<open>poly_impl zs\<close>: \<^verbatim>\<open>np.poly\<close> of a non-empty sequence of roots.
  Of a result of \<open>dot_impl\<close>, \<open>vecdot_impl\<close>, \<open>power_impl\<close>, \<open>inv_impl\<close>, \<open>pinv_impl\<close> and
  \<open>poly_impl\<close> only the element type and the elements are read: its shape is the one
  that numpy's rules fix.
\<close>

record ('a, 'd) numpy =
  float64 :: 'd
  zero_f64 :: 'a
  one_f64 :: 'a
  int_type :: 'd
  of_pyint :: "int \<Rightarrow> 'a"
  astype :: "'d \<Rightarrow> 'a \<Rightarrow> 'a"
  result_type :: "'d \<Rightarrow> 'd \<Rightarrow> 'd"
  scalar_add :: "'a \<Rightarrow> 'a \<Rightarrow> 'a"
  scalar_sub :: "'a \<Rightarrow> 'a \<Rightarrow> 'a"
  scalar_eq :: "'a \<Rightarrow> 'a \<Rightarrow> bool"
  int_times :: "int \<Rightarrow> 'a \<Rightarrow> 'a"
  int_times_type :: "int \<Rightarrow> 'd \<Rightarrow> 'd"
  number_times :: "real \<Rightarrow> 'a \<Rightarrow> 'a"
  number_times_type :: "real \<Rightarrow> 'd \<Rightarrow> 'd"
  dot_impl :: "('a, 'd) matrix \<Rightarrow> ('a, 'd) matrix \<Rightarrow> ('a, 'd) matrix"
  vecdot_impl :: "('a, 'd) ndarray \<Rightarrow> ('a, 'd) matrix \<Rightarrow> ('a, 'd) ndarray"
  power_impl :: "('a, 'd) matrix \<Rightarrow> nat \<Rightarrow> ('a, 'd) matrix"
  inv_impl :: "('a, 'd) matrix \<Rightarrow> ('a, 'd) matrix option"
  pinv_impl :: "('a, 'd) matrix \<Rightarrow> ('a, 'd) matrix option"
  poly_impl :: "'a list \<Rightarrow> ('a, 'd) ndarray"

text \<open>
  \<^verbatim>\<open>np.array_equal\<close>: the same shape and all elements equal by numpy's \<^verbatim>\<open>==\<close>.
\<close>

definition array_equal :: "('a, 'd) numpy \<Rightarrow> ('a, 'd) matrix \<Rightarrow> ('a, 'd) matrix \<Rightarrow> bool" where
  "array_equal np M N \<longleftrightarrow>
     shape M = shape N \<and> list_all2 (list_all2 (scalar_eq np)) (to_rows M) (to_rows N)"

section \<open>The state-space model\<close>

text \<open>
  Modelled from the spec: the base class \<^verbatim>\<open>LinearTimeInvariant\<close> (\<^verbatim>\<open>tcontrol/lti.py\<close>)
  is not among the sources. Its constructor is called with the number of inputs, the
  number of outputs and the sampling time, and the code reads them back as
  \<^verbatim>\<open>self.inputs\<close>, \<^verbatim>\<open>self.outputs\<close> and \<^verbatim>\<open>self.dt\<close>; the specification calls them derived
  quantities of the model and its optional sampling time. They are the first three
  fields below; \<open>None\<close> is Python's \<^verbatim>\<open>None\<close>, no sampling time set.
\<close>

record ('a, 'd) StateSpace =
  inputs :: nat
  outputs :: nat
  dt :: "real option"
  A :: "('a, 'd) matrix"
  B :: "('a, 'd) matrix"
  C :: "('a, 'd) matrix"
  D :: "('a, 'd) matrix"

text \<open>
  \<^verbatim>\<open>StateSpace.__init__\<close> (lines 18-50), on arguments that are matrices already
  (\<^verbatim>\<open>np.mat\<close> leaves a matrix as it is). The four checks run in the source's order.
\<close>

definition StateSpace_init ::
  "('a, 'd) matrix \<Rightarrow> ('a, 'd) matrix \<Rightarrow> ('a, 'd) matrix \<Rightarrow> ('a, 'd) matrix \<Rightarrow> real option \<Rightarrow>
   error + ('a, 'd) StateSpace" where
  "StateSpace_init a b c d t =
     (if nrows a \<noteq> ncols a then Inl ValueError_wrong_shape_A
      else if nrows b \<noteq> nrows a then Inl ValueError_wrong_shape_B
      else if ncols c \<noteq> nrows a then Inl ValueError_wrong_shape_C
      else if shape d \<noteq> (nrows c, ncols b) then Inl ValueError_wrong_shape_D
      else Inr \<lparr>inputs = ncols b, outputs = nrows c, dt = t, A = a, B = b, C = c, D = d\<rparr>)"

text \<open>\<^verbatim>\<open>StateSpace.__eq__\<close> (lines 61-65).\<close>

definition StateSpace_eq ::
  "('a, 'd) numpy \<Rightarrow> ('a, 'd) StateSpace \<Rightarrow> ('a, 'd) StateSpace \<Rightarrow> bool" where
  "StateSpace_eq np self other \<longleftrightarrow>
     array_equal np (A self) (A other) \<and> array_equal np (B self) (B other) \<and>
     array_equal np (C self) (C other) \<and> array_equal np (D self) (D other)"

text \<open>
  The invariant every constructed model has: the four shape rules, and the input and
  output counts that the constructor derives from \<open>B\<close> and \<open>C\<close>.
\<close>

definition valid :: "('a, 'd) StateSpace \<Rightarrow> bool" where
  "valid s \<longleftrightarrow>
     nrows (A s) = ncols (A s) \<and> nrows (B s) = nrows (A s) \<and> ncols (C s) = nrows (A s) \<and>
     shape (D s) = (nrows (C s), ncols (B s)) \<and>
     inputs s = ncols (B s) \<and> outputs s = nrows (C s)"

section \<open>The numpy operations the code uses\<close>

text \<open>
  \<^verbatim>\<open>np.zeros((r, c))\<close>, \<^verbatim>\<open>np.ones((r, c))\<close> and \<^verbatim>\<open>np.eye(n)\<close> are arrays of floating-point
  numbers. \<^verbatim>\<open>M.T\<close> keeps the elements and their type. \<open>smul k M\<close> is the product \<^verbatim>\<open>k * M\<close>
  of a Python integer and a matrix, \<open>times_number M x\<close> the product \<^verbatim>\<open>M * x\<close> of an array
  and a Python number.
\<close>

definition np_zeros :: "('a, 'd) numpy \<Rightarrow> nat \<Rightarrow> nat \<Rightarrow> ('a, 'd) matrix" where
  "np_zeros np r c = Matrix r c (float64 np) (\<lambda>i j. zero_f64 np)"

definition np_ones :: "('a, 'd) numpy \<Rightarrow> nat \<Rightarrow> nat \<Rightarrow> ('a, 'd) matrix" where
  "np_ones np r c = Matrix r c (float64 np) (\<lambda>i j. one_f64 np)"

definition np_eye :: "('a, 'd) numpy \<Rightarrow> nat \<Rightarrow> ('a, 'd) matrix" where
  "np_eye np n = Matrix n n (float64 np) (\<lambda>i j. if i = j then one_f64 np else zero_f64 np)"

definition mat_T :: "('a, 'd) matrix \<Rightarrow> ('a, 'd) matrix" where
  "mat_T M = Matrix (ncols M) (nrows M) (dtype M) (\<lambda>i j. entry M j i)"

definition smul :: "('a, 'd) numpy \<Rightarrow> int \<Rightarrow> ('a, 'd) matrix \<Rightarrow> ('a, 'd) matrix" where
  "smul np k M =
     Matrix (nrows M) (ncols M) (int_times_type np k (dtype M))
       (\<lambda>i j. int_times np k (entry M i j))"

definition times_number :: "('a, 'd) numpy \<Rightarrow> ('a, 'd) matrix \<Rightarrow> real \<Rightarrow> ('a, 'd) matrix" where
  "times_number np M x =
     Matrix (nrows M) (ncols M) (number_times_type np x (dtype M))
       (\<lambda>i j. number_times np x (entry M i j))"

text \<open>
  The product of two matrices (\<^verbatim>\<open>*\<close> on \<^verbatim>\<open>np.matrix\<close>): numpy raises \<^verbatim>\<open>ValueError\<close> when the
  columns of the left operand are not as many as the rows of the right one. Else the
  result has the rows of the left and the columns of the right operand, and numpy's
  elements.
\<close>

definition dot :: "('a, 'd) numpy \<Rightarrow> ('a, 'd) matrix \<Rightarrow> ('a, 'd) matrix \<Rightarrow> ('a, 'd) matrix" where
  "dot np M N =
     Matrix (nrows M) (ncols N) (dtype (dot_impl np M N)) (entry (dot_impl np M N))"

definition matmul ::
  "('a, 'd) numpy \<Rightarrow> ('a, 'd) matrix \<Rightarrow> ('a, 'd) matrix \<Rightarrow> error + ('a, 'd) matrix" where
  "matmul np M N =
     (if ncols M = nrows N then Inr (dot np M N) else Inl ValueError_not_aligned)"

text \<open>
  Element-wise \<^verbatim>\<open>+\<close> and \<^verbatim>\<open>-\<close> with numpy's broadcasting: two dimensions fit when they are
  equal or one of them is 1, and a dimension of 1 is repeated along the other operand's.
\<close>

definition broadcastable :: "nat \<Rightarrow> nat \<Rightarrow> bool" where
  "broadcastable a b \<longleftrightarrow> a = b \<or> a = 1 \<or> b = 1"

definition bdim :: "nat \<Rightarrow> nat \<Rightarrow> nat" where
  "bdim a b = (if a = 1 then b else a)"

definition bidx :: "nat \<Rightarrow> nat \<Rightarrow> nat" where
  "bidx d i = (if d = 1 then 0 else i)"

definition elementwise ::
  "('a, 'd) numpy \<Rightarrow> ('a \<Rightarrow> 'a \<Rightarrow> 'a) \<Rightarrow> ('a, 'd) matrix \<Rightarrow> ('a, 'd) matrix \<Rightarrow> ('a, 'd) matrix" where
  "elementwise np f M N =
     Matrix (bdim (nrows M) (nrows N)) (bdim (ncols M) (ncols N))
       (result_type np (dtype M) (dtype N))
       (\<lambda>i j. f (entry M (bidx (nrows M) i) (bidx (ncols M) j))
                (entry N (bidx (nrows N) i) (bidx (ncols N) j)))"

definition np_add ::
  "('a, 'd) numpy \<Rightarrow> ('a, 'd) matrix \<Rightarrow> ('a, 'd) matrix \<Rightarrow> error + ('a, 'd) matrix" where
  "np_add np M N =
     (if broadcastable (nrows M) (nrows N) \<and> broadcastable (ncols M) (ncols N)
      then Inr (elementwise np (scalar_add np) M N) else Inl ValueError_broadcast)"

definition np_sub ::
  "('a, 'd) numpy \<Rightarrow> ('a, 'd) matrix \<Rightarrow> ('a, 'd) matrix \<Rightarrow> error + ('a, 'd) matrix" where
  "np_sub np M N =
     (if broadcastable (nrows M) (nrows N) \<and> broadcastable (ncols M) (ncols N)
      then Inr (elementwise np (scalar_sub np) M N) else Inl ValueError_broadcast)"

text \<open>
  \<^verbatim>\<open>np.concatenate((M, N), axis=0)\<close> puts \<open>N\<close> under \<open>M\<close>, and with \<^verbatim>\<open>axis=1\<close> to the right of
  \<open>M\<close>; the other dimension has to agree. The result has the common element type of the
  two, and every element is converted to it.
\<close>

definition vstack :: "('a, 'd) numpy \<Rightarrow> ('a, 'd) matrix \<Rightarrow> ('a, 'd) matrix \<Rightarrow> ('a, 'd) matrix" where
  "vstack np M N =
     Matrix (nrows M + nrows N) (ncols M) (result_type np (dtype M) (dtype N))
       (\<lambda>i j. astype np (result_type np (dtype M) (dtype N))
                 (if i < nrows M then entry M i j else entry N (i - nrows M) j))"

definition hstack :: "('a, 'd) numpy \<Rightarrow> ('a, 'd) matrix \<Rightarrow> ('a, 'd) matrix \<Rightarrow> ('a, 'd) matrix" where
  "hstack np M N =
     Matrix (nrows M) (ncols M + ncols N) (result_type np (dtype M) (dtype N))
       (\<lambda>i j. astype np (result_type np (dtype M) (dtype N))
                 (if j < ncols M then entry M i j else entry N i (j - ncols M)))"

definition np_concatenate0 ::
  "('a, 'd) numpy \<Rightarrow> ('a, 'd) matrix \<Rightarrow> ('a, 'd) matrix \<Rightarrow> error + ('a, 'd) matrix" where
  "np_concatenate0 np M N =
     (if ncols M = ncols N then Inr (vstack np M N) else Inl ValueError_concatenate)"

definition np_concatenate1 ::
  "('a, 'd) numpy \<Rightarrow> ('a, 'd) matrix \<Rightarrow> ('a, 'd) matrix \<Rightarrow> error + ('a, 'd) matrix" where
  "np_concatenate1 np M N =
     (if nrows M = nrows N then Inr (hstack np M N) else Inl ValueError_concatenate)"

text \<open>
  The slice assignment \<^verbatim>\<open>M[r0:r1, c0:c1] = V\<close>. A slice is cut down to the array's bounds;
  \<open>V\<close> has to broadcast to the shape of the region, else numpy raises \<^verbatim>\<open>ValueError\<close>. An
  open end (\<^verbatim>\<open>M[r0:, c0:]\<close>) is the slice up to the array's own size. The array keeps its
  element type, and the elements of \<open>V\<close> are converted to it.
\<close>

definition slice_assigned ::
  "('a, 'd) numpy \<Rightarrow> ('a, 'd) matrix \<Rightarrow> nat \<Rightarrow> nat \<Rightarrow> nat \<Rightarrow> nat \<Rightarrow> ('a, 'd) matrix \<Rightarrow>
   ('a, 'd) matrix" where
  "slice_assigned np M rlo rhi clo chi V =
     Matrix (nrows M) (ncols M) (dtype M)
       (\<lambda>i j. if rlo \<le> i \<and> i < rhi \<and> clo \<le> j \<and> j < chi
               then astype np (dtype M)
                      (entry V (bidx (nrows V) (i - rlo)) (bidx (ncols V) (j - clo)))
               else entry M i j)"

definition set_slice ::
  "('a, 'd) numpy \<Rightarrow> ('a, 'd) matrix \<Rightarrow> nat \<Rightarrow> nat \<Rightarrow> nat \<Rightarrow> nat \<Rightarrow> ('a, 'd) matrix \<Rightarrow>
   error + ('a, 'd) matrix" where
  "set_slice np M r0 r1 c0 c1 V =
     (let rlo = min r0 (nrows M); rhi = max rlo (min r1 (nrows M));
          clo = min c0 (ncols M); chi = max clo (min c1 (ncols M))
      in if (nrows V = rhi - rlo \<or> nrows V = 1) \<and> (ncols V = chi - clo \<or> ncols V = 1)
         then Inr (slice_assigned np M rlo rhi clo chi V)
         else Inl ValueError_broadcast)"

section \<open>Parallel and series connection\<close>

text \<open>\<^verbatim>\<open>StateSpace.__add__\<close> (lines 76-95).\<close>

definition StateSpace_add ::
  "('a, 'd) numpy \<Rightarrow> ('a, 'd) StateSpace \<Rightarrow> ('a, 'd) StateSpace \<Rightarrow> error + ('a, 'd) StateSpace" where
  "StateSpace_add np self other =
     (if shape (D self) \<noteq> shape (D other) then Inl ValueError_shapes_of_D
      else bindE
        (if dt self = None \<and> dt other \<noteq> None then Inr (dt other)
         else if dt self \<noteq> None \<and> dt other = None \<or> dt self = dt other then Inr (dt self)
         else Inl ValueError_sampling_time) (\<lambda>t.
        bindE (set_slice np (np_zeros np (nrows (A self) + nrows (A other))
                                         (ncols (A self) + ncols (A other)))
                 0 (nrows (A self)) 0 (ncols (A self)) (A self)) (\<lambda>A1.
        bindE (set_slice np A1 (nrows (A self)) (nrows A1) (ncols (A self)) (ncols A1)
                 (A other)) (\<lambda>A2.
        bindE (np_concatenate0 np (B self) (B other)) (\<lambda>B'.
        bindE (np_concatenate1 np (C self) (C other)) (\<lambda>C'.
        bindE (np_add np (D self) (D other)) (\<lambda>D'.
        StateSpace_init A2 B' C' D' t)))))))"

text \<open>
  \<^verbatim>\<open>StateSpace.__mul__\<close> on two models (lines 103-122). The constructor is called with the
  transposes of the computed \<open>C\<close> and \<open>B\<close> in the places of \<open>B\<close> and \<open>C\<close>, as line 122 has it.
\<close>

definition StateSpace_mul_ss ::
  "('a, 'd) numpy \<Rightarrow> ('a, 'd) StateSpace \<Rightarrow> ('a, 'd) StateSpace \<Rightarrow> error + ('a, 'd) StateSpace" where
  "StateSpace_mul_ss np self other =
     (if outputs self \<noteq> inputs other then Inl ValueError_outputs_inputs
      else bindE
        (if dt self = None \<and> dt other \<noteq> None then Inr (dt other)
         else if dt self \<noteq> None \<and> dt other = None \<or> dt self = dt other then Inr (dt self)
         else Inl ValueError_sampling_time) (\<lambda>t.
        bindE (set_slice np (np_zeros np (nrows (A self) + nrows (A other))
                                         (ncols (A self) + ncols (A other)))
                 0 (nrows (A self)) 0 (ncols (A self)) (A self)) (\<lambda>A1.
        bindE (set_slice np A1 (nrows (A self)) (nrows A1) (ncols (A self)) (ncols A1)
                 (A other)) (\<lambda>A2.
        bindE (matmul np (B self) (C other)) (\<lambda>BC.
        bindE (set_slice np A2 0 (nrows (A self)) (nrows (A self)) (ncols A2) BC) (\<lambda>A3.
        bindE (matmul np (B self) (D other)) (\<lambda>BD.
        bindE (np_concatenate0 np (B other) BD) (\<lambda>B'.
        bindE (matmul np (D self) (C other)) (\<lambda>DC.
        bindE (np_concatenate1 np DC (C self)) (\<lambda>C'.
        bindE (matmul np (D self) (D other)) (\<lambda>D'.
        StateSpace_init A3 (mat_T C') (mat_T B') D' t)))))))))))"

text \<open>
  \<^verbatim>\<open>np.zeros(shape, dtype)\<close>: the second positional argument is the element type. A Python
  integer such as \<open>1\<close> is not one, and numpy raises \<^verbatim>\<open>TypeError\<close>.
\<close>

datatype dtype_arg = Dtype_float | Dtype_int_object int

definition np_zeros_dtype ::
  "('a, 'd) numpy \<Rightarrow> nat \<Rightarrow> nat \<Rightarrow> dtype_arg \<Rightarrow> error + ('a, 'd) matrix" where
  "np_zeros_dtype np r c d =
     (case d of Dtype_float \<Rightarrow> Inr (np_zeros np r c) | Dtype_int_object _ \<Rightarrow> Inl TypeError)"

text \<open>
  The right operand of \<^verbatim>\<open>*\<close>: a model, a number (\<^verbatim>\<open>float\<close> or \<^verbatim>\<open>int\<close>), another
  \<^verbatim>\<open>LinearTimeInvariant\<close> object, or any other object. The converter \<^verbatim>\<open>tf2ss\<close> of
  \<^verbatim>\<open>tcontrol.model_conversion\<close> is not among the sources and is a parameter.

  \<^verbatim>\<open>_convert_to_ss\<close> (lines 393-403), called without keywords, so that \<open>inputs\<close> and
  \<open>outputs\<close> are both 1. The arguments of the constructor are evaluated from left to right:
  \<^verbatim>\<open>np.matrix(0)\<close>, a matrix of one integer; \<^verbatim>\<open>np.zeros((1, inputs))\<close>; the third one is
  \<^verbatim>\<open>np.zeros(outputs, 1)\<close>, with \<open>1\<close> in the place of the element type.
  A model is a \<^verbatim>\<open>LinearTimeInvariant\<close> too and would go to \<^verbatim>\<open>tf2ss\<close>, which the
  repository's test expects to raise \<^verbatim>\<open>TypeError\<close> on a model.
\<close>

datatype ('a, 'd, 'tf) operand = Model "('a, 'd) StateSpace" | Number real | Lti 'tf | Object

definition convert_to_ss ::
  "('a, 'd) numpy \<Rightarrow> ('tf \<Rightarrow> error + ('a, 'd) StateSpace) \<Rightarrow> ('a, 'd, 'tf) operand \<Rightarrow>
   error + ('a, 'd) StateSpace" where
  "convert_to_ss np tf2ss obj =
     (case obj of
        Number x \<Rightarrow>
          (let inputs' = 1; outputs' = 1 in
           bindE (Inr (of_rows (int_type np) [[of_pyint np 0]])) (\<lambda>a.
           bindE (Inr (np_zeros np 1 inputs')) (\<lambda>b.
           bindE (np_zeros_dtype np 1 outputs' (Dtype_int_object 1)) (\<lambda>c.
           bindE (Inr (times_number np (np_ones np outputs' inputs') x)) (\<lambda>d.
           StateSpace_init a b c d None)))))
      | Lti g \<Rightarrow> tf2ss g
      | Model s \<Rightarrow> Inl TypeError
      | Object \<Rightarrow> Inl TypeError)"

text \<open>\<^verbatim>\<open>StateSpace.__mul__\<close> (lines 99-122) on any right operand.\<close>

definition StateSpace_mul ::
  "('a, 'd) numpy \<Rightarrow> ('tf \<Rightarrow> error + ('a, 'd) StateSpace) \<Rightarrow> ('a, 'd) StateSpace \<Rightarrow>
   ('a, 'd, 'tf) operand \<Rightarrow> error + ('a, 'd) StateSpace" where
  "StateSpace_mul np tf2ss self other =
     (case other of
        Model s \<Rightarrow> StateSpace_mul_ss np self s
      | _ \<Rightarrow> bindE (convert_to_ss np tf2ss other) (\<lambda>s. StateSpace_mul_ss np self s))"
section \<open>Inverses\<close>

text \<open>
  \<^verbatim>\<open>np.linalg.inv\<close>: \<^verbatim>\<open>LinAlgError\<close> for a matrix that is not square, which numpy checks
  itself, and for a square matrix that its LAPACK routine reports as singular; else a
  matrix of the same shape. Which square matrices the routine reports, and the elements
  it returns, are numpy's (\<open>inv_impl\<close>): in floating point a matrix without an inverse
  may well be inverted, and the other way round.
\<close>

definition np_linalg_inv :: "('a, 'd) numpy \<Rightarrow> ('a, 'd) matrix \<Rightarrow> error + ('a, 'd) matrix" where
  "np_linalg_inv np M =
     (if nrows M \<noteq> ncols M then Inl LinAlgError
      else case inv_impl np M of
             None \<Rightarrow> Inl LinAlgError
           | Some G \<Rightarrow> Inr (Matrix (nrows M) (ncols M) (dtype G) (entry G)))"

text \<open>
  \<^verbatim>\<open>np.linalg.pinv\<close>: the pseudo-inverse of an \<open>r \<times> c\<close> matrix is a \<open>c \<times> r\<close> matrix, computed
  from a floating-point singular value decomposition with a cut-off; \<^verbatim>\<open>LinAlgError\<close> when
  the decomposition does not converge.
\<close>

definition np_linalg_pinv :: "('a, 'd) numpy \<Rightarrow> ('a, 'd) matrix \<Rightarrow> error + ('a, 'd) matrix" where
  "np_linalg_pinv np M =
     (case pinv_impl np M of
        None \<Rightarrow> Inl LinAlgError
      | Some G \<Rightarrow> Inr (Matrix (ncols M) (nrows M) (dtype G) (entry G)))"

text \<open>
  \<^verbatim>\<open>M.I\<close> of \<^verbatim>\<open>np.matrix\<close>: \<^verbatim>\<open>np.linalg.inv\<close> for a square matrix, \<^verbatim>\<open>np.linalg.pinv\<close>
  otherwise.
\<close>

definition matrix_I :: "('a, 'd) numpy \<Rightarrow> ('a, 'd) matrix \<Rightarrow> error + ('a, 'd) matrix" where
  "matrix_I np M = (if nrows M = ncols M then np_linalg_inv np M else np_linalg_pinv np M)"

section \<open>Feedback\<close>

text \<open>Line 134 of \<^verbatim>\<open>StateSpace.feedback\<close>: \<^verbatim>\<open>F = np.eye(self.inputs) - sign * k.D * self.D\<close>.\<close>

definition feedback_F ::
  "('a, 'd) numpy \<Rightarrow> ('a, 'd) StateSpace \<Rightarrow> ('a, 'd) StateSpace \<Rightarrow> int \<Rightarrow>
   error + ('a, 'd) matrix" where
  "feedback_F np self k sign =
     bindE (matmul np (smul np sign (D k)) (D self)) (\<lambda>kD_D.
     np_sub np (np_eye np (inputs self)) kD_D)"

text \<open>
  Lines 134-158: the four matrices of the closed loop, each operation in the source's
  order. \<open>vstack\<close> is \<^verbatim>\<open>np.concatenate\<close> along the rows (its default), \<open>hstack\<close> along the
  columns (\<^verbatim>\<open>axis=1\<close>).
\<close>

definition feedback_matrices ::
  "('a, 'd) numpy \<Rightarrow> ('a, 'd) StateSpace \<Rightarrow> ('a, 'd) StateSpace \<Rightarrow> int \<Rightarrow>
   error + (('a, 'd) matrix \<times> ('a, 'd) matrix \<times> ('a, 'd) matrix \<times> ('a, 'd) matrix)" where
  "feedback_matrices np self k sign =
     bindE (feedback_F np self k sign) (\<lambda>F.
     bindE (matrix_I np F) (\<lambda>F_inv.
     bindE (matmul np F_inv (D k)) (\<lambda>F_inv_D2.
     bindE (matmul np F_inv (C k)) (\<lambda>F_inv_C2.
     bindE (matmul np F_inv_D2 (C self)) (\<lambda>F_inv_D2_C1.
     bindE (matmul np F_inv_D2 (D self)) (\<lambda>F_inv_D2_D1.
     let signed_B1 = smul np sign (B self);
         signed_D1 = smul np sign (D self) in
     bindE (matmul np signed_B1 F_inv_D2_C1) (\<lambda>x1.
     bindE (np_add np (A self) x1) (\<lambda>A1.
     bindE (matmul np signed_B1 F_inv_C2) (\<lambda>A2.
     bindE (matmul np signed_D1 F_inv_D2_C1) (\<lambda>x3.
     bindE (np_add np (C self) x3) (\<lambda>y3.
     bindE (matmul np (B k) y3) (\<lambda>A3.
     bindE (matmul np (smul np sign (B k)) (D self)) (\<lambda>x4.
     bindE (matmul np x4 F_inv_C2) (\<lambda>y4.
     bindE (np_add np (A k) y4) (\<lambda>A4.
     bindE (np_concatenate0 np A1 A3) (\<lambda>A13.
     bindE (np_concatenate0 np A2 A4) (\<lambda>A24.
     bindE (np_concatenate1 np A13 A24) (\<lambda>A'.
     bindE (matmul np signed_B1 F_inv_D2_D1) (\<lambda>u1.
     bindE (np_add np (B self) u1) (\<lambda>B1.
     bindE (matmul np (B k) (D self)) (\<lambda>u2.
     bindE (matmul np (smul np sign (B k)) (D self)) (\<lambda>v2.
     bindE (matmul np v2 F_inv_D2_D1) (\<lambda>w2.
     bindE (np_add np u2 w2) (\<lambda>B2.
     bindE (np_concatenate0 np B1 B2) (\<lambda>B'.
     bindE (matmul np signed_D1 F_inv_D2_C1) (\<lambda>z1.
     bindE (np_add np (C self) z1) (\<lambda>C1.
     bindE (matmul np signed_D1 F_inv_C2) (\<lambda>C2.
     bindE (np_concatenate1 np C1 C2) (\<lambda>C'.
     bindE (matmul np signed_D1 F_inv_D2_D1) (\<lambda>z2.
     bindE (np_add np (D self) z2) (\<lambda>D'.
     Inr (A', B', C', D'))))))))))))))))))))))))))))))))"

text \<open>
  \<^verbatim>\<open>StateSpace.feedback\<close> (lines 124-160). The constructor is called without \<^verbatim>\<open>dt\<close>, whose
  default is \<^verbatim>\<open>None\<close>.
\<close>

definition feedback ::
  "('a, 'd) numpy \<Rightarrow> ('a, 'd) StateSpace \<Rightarrow> ('a, 'd) StateSpace \<Rightarrow> int \<Rightarrow>
   error + ('a, 'd) StateSpace" where
  "feedback np self k sign =
     bindE (feedback_matrices np self k sign) (\<lambda>(A', B', C', D').
     StateSpace_init A' B' C' D' None)"

section \<open>Controllability and pole placement\<close>

text \<open>
  \<^verbatim>\<open>M ** i\<close> on \<^verbatim>\<open>np.matrix\<close> is \<^verbatim>\<open>np.linalg.matrix_power\<close>: \<^verbatim>\<open>LinAlgError\<close> for a matrix that
  is not square, else a matrix of the same shape.
\<close>

definition matrix_power ::
  "('a, 'd) numpy \<Rightarrow> ('a, 'd) matrix \<Rightarrow> nat \<Rightarrow> error + ('a, 'd) matrix" where
  "matrix_power np M i =
     (if nrows M \<noteq> ncols M then Inl LinAlgError
      else Inr (Matrix (nrows M) (ncols M) (dtype (power_impl np M i))
                  (entry (power_impl np M i))))"

text \<open>
  \<^verbatim>\<open>StateSpace.controllability\<close> (lines 171-181): the loop over \<^verbatim>\<open>range(1, n)\<close> appends
  \<open>A\<^sup>i B\<close> to the right of what it has.
\<close>

fun controllability_loop ::
  "('a, 'd) numpy \<Rightarrow> ('a, 'd) StateSpace \<Rightarrow> nat list \<Rightarrow> ('a, 'd) matrix \<Rightarrow>
   error + ('a, 'd) matrix" where
  "controllability_loop np self [] tmp = Inr tmp"
| "controllability_loop np self (i # is) tmp =
     bindE (matrix_power np (A self) i) (\<lambda>Ai.
     bindE (matmul np Ai (B self)) (\<lambda>AiB.
     bindE (np_concatenate1 np tmp AiB) (\<lambda>tmp'.
     controllability_loop np self is tmp')))"

definition controllability ::
  "('a, 'd) numpy \<Rightarrow> ('a, 'd) StateSpace \<Rightarrow> error + ('a, 'd) matrix" where
  "controllability np self = controllability_loop np self [1..<nrows (A self)] (B self)"

text \<open>
  \<^verbatim>\<open>np.asarray(M[-1]).reshape(-1)\<close>: the last row as a one-dimensional array,
  \<^verbatim>\<open>IndexError\<close> when there is no row. The product of a one-dimensional array and a
  matrix (\<^verbatim>\<open>v * M\<close>, numpy's \<^verbatim>\<open>dot\<close>) has as many elements as the matrix has columns;
  \<^verbatim>\<open>ValueError\<close> when the length of the array is not the number of rows. As a matrix it
  has one row.
\<close>

definition last_row :: "('a, 'd) matrix \<Rightarrow> error + ('a, 'd) ndarray" where
  "last_row M =
     (if nrows M = 0 then Inl IndexError
      else Inr (Ndarray (ncols M) (dtype M) (\<lambda>j. entry M (nrows M - 1) j)))"

definition vecmat ::
  "('a, 'd) numpy \<Rightarrow> ('a, 'd) ndarray \<Rightarrow> ('a, 'd) matrix \<Rightarrow> error + ('a, 'd) ndarray" where
  "vecmat np v M =
     (if len v = nrows M
      then Inr (Ndarray (ncols M) (adtype (vecdot_impl np v M)) (elem (vecdot_impl np v M)))
      else Inl ValueError_not_aligned)"

definition row_matrix :: "('a, 'd) ndarray \<Rightarrow> ('a, 'd) matrix" where
  "row_matrix v = Matrix 1 (len v) (adtype v) (\<lambda>i j. elem v j)"

text \<open>
  \<^verbatim>\<open>np.mat\<close> of a list of one-dimensional arrays of one length: the arrays are the rows,
  converted to their common element type. Of the empty list numpy makes a matrix of
  floating-point numbers of shape \<open>(1, 0)\<close>.
\<close>

definition np_mat ::
  "('a, 'd) numpy \<Rightarrow> ('a, 'd) ndarray list \<Rightarrow> ('a, 'd) matrix" where
  "np_mat np vs =
     (if vs = [] then Matrix 1 0 (float64 np) (\<lambda>i j. zero_f64 np)
      else let d = foldl (result_type np) (adtype (hd vs)) (map adtype (tl vs))
           in Matrix (length vs) (len (hd vs)) d (\<lambda>i j. astype np d (elem (vs ! i) j)))"

text \<open>
  \<^verbatim>\<open>StateSpace.to_controllable_form\<close> (lines 183-189). The list comprehension of line 186
  is the recursion \<open>controllable_rows\<close> over \<^verbatim>\<open>range(n)\<close>.
\<close>

fun controllable_rows ::
  "('a, 'd) numpy \<Rightarrow> ('a, 'd) ndarray \<Rightarrow> ('a, 'd) StateSpace \<Rightarrow> nat list \<Rightarrow>
   error + ('a, 'd) ndarray list" where
  "controllable_rows np p self [] = Inr []"
| "controllable_rows np p self (i # is) =
     bindE (matrix_power np (A self) i) (\<lambda>Ai.
     bindE (vecmat np p Ai) (\<lambda>row.
     bindE (controllable_rows np p self is) (\<lambda>rows.
     Inr (row # rows))))"

definition to_controllable_form ::
  "('a, 'd) numpy \<Rightarrow> ('a, 'd) StateSpace \<Rightarrow> error + ('a, 'd) matrix" where
  "to_controllable_form np self =
     bindE (controllability np self) (\<lambda>Co.
     bindE (matrix_I np Co) (\<lambda>M.
     bindE (last_row M) (\<lambda>p.
     bindE (controllable_rows np p self [0..<nrows (A self)]) (\<lambda>T.
     np_linalg_inv np (np_mat np T)))))"

text \<open>
  \<^verbatim>\<open>np.poly\<close> of a one-dimensional sequence of roots: the Python float \<open>1.0\<close> for the empty
  sequence, else an array of the coefficients of the monic polynomial with these roots,
  highest power first, one more than there are roots. \<^verbatim>\<open>x[1:]\<close> of a float is a
  \<^verbatim>\<open>TypeError\<close>, of an array the array without its first element; \<^verbatim>\<open>x[::-1]\<close> is the
  array in reverse order.
\<close>

datatype ('a, 'd) py_value = PyFloat 'a | NdArray "('a, 'd) ndarray"

definition np_poly :: "('a, 'd) numpy \<Rightarrow> 'a list \<Rightarrow> ('a, 'd) py_value" where
  "np_poly np zs =
     (if zs = [] then PyFloat (one_f64 np)
      else NdArray (Ndarray (length zs + 1) (adtype (poly_impl np zs)) (elem (poly_impl np zs))))"

definition from_index_1 :: "('a, 'd) py_value \<Rightarrow> error + ('a, 'd) ndarray" where
  "from_index_1 x =
     (case x of
        PyFloat _ \<Rightarrow> Inl TypeError
      | NdArray v \<Rightarrow> Inr (Ndarray (len v - 1) (adtype v) (\<lambda>k. elem v (k + 1))))"

definition reversed :: "('a, 'd) ndarray \<Rightarrow> ('a, 'd) ndarray" where
  "reversed v = Ndarray (len v) (adtype v) (\<lambda>k. elem v (len v - 1 - k))"

text \<open>\<^verbatim>\<open>+\<close> on two one-dimensional arrays, with broadcasting of length 1.\<close>

definition add_1d ::
  "('a, 'd) numpy \<Rightarrow> ('a, 'd) ndarray \<Rightarrow> ('a, 'd) ndarray \<Rightarrow> error + ('a, 'd) ndarray" where
  "add_1d np x y =
     (if broadcastable (len x) (len y)
      then Inr (Ndarray (bdim (len x) (len y)) (result_type np (adtype x) (adtype y))
                  (\<lambda>k. scalar_add np (elem x (bidx (len x) k)) (elem y (bidx (len y) k))))
      else Inl ValueError_broadcast)"

text \<open>
  \<^verbatim>\<open>StateSpace.place\<close> (lines 239-256). \<^verbatim>\<open>T.I\<close> is evaluated in line 251 and again in line
  256; the result of \<^verbatim>\<open>K*T.I\<close> is a matrix of one row.
\<close>

definition place ::
  "('a, 'd) numpy \<Rightarrow> ('a, 'd) StateSpace \<Rightarrow> 'a list \<Rightarrow> error + ('a, 'd) matrix" where
  "place np self poles =
     bindE (to_controllable_form np self) (\<lambda>T.
     bindE (matrix_I np T) (\<lambda>Ti.
     bindE (matmul np Ti (A self)) (\<lambda>TiA.
     bindE (matmul np TiA T) (\<lambda>Ac.
     bindE (from_index_1 (np_poly np poles)) (\<lambda>p1.
     let p = reversed p1 in
     bindE (last_row Ac) (\<lambda>a.
     bindE (add_1d np (reversed p) a) (\<lambda>K.
     bindE (matrix_I np T) (\<lambda>Ti'.
     bindE (vecmat np K Ti') (\<lambda>KTi.
     Inr (row_matrix KTi))))))))))"
section \<open>The unknowns of the Lyapunov equation\<close>

text \<open>
  \<^verbatim>\<open>StateSpace.lyapunov\<close> hands the equation to sympy's solver, which is not part of the
  repository. What the repository's own code does before is to build the matrix \<open>p\<close> of the
  unknowns (lines 298-299): row \<open>j\<close>, column \<open>i\<close> holds the symbol whose name is the
  f-string \<^verbatim>\<open>p_{j}{i}\<close> when \<open>i \<le> j\<close> and \<^verbatim>\<open>p_{i}{j}\<close> otherwise. An f-string writes an
  integer in decimal digits, and two sympy symbols of one name are one unknown.
\<close>

definition digit :: "nat \<Rightarrow> char" where
  "digit d = ''0123456789'' ! d"

fun str_nat :: "nat \<Rightarrow> string" where
  "str_nat n = (if n < 10 then [digit n] else str_nat (n div 10) @ [digit (n mod 10)])"

definition symbol_name :: "nat \<Rightarrow> nat \<Rightarrow> string" where
  "symbol_name i j =
     (if i \<le> j then ''p_'' @ str_nat j @ str_nat i else ''p_'' @ str_nat i @ str_nat j)"

definition lyapunov_p :: "nat \<Rightarrow> string list list" where
  "lyapunov_p n = map (\<lambda>j. map (\<lambda>i. symbol_name i j) [0..<n]) [0..<n]"

section \<open>Exact arithmetic\<close>

text \<open>
  For the concrete models below the parameter \<open>numpy\<close> is instantiated with arithmetic on
  real numbers, without rounding and with a single element type: what numpy computes as
  long as every number involved is represented exactly, as the small integers and halves
  of the examples are. \<open>mm n f g\<close> is the product of the entries \<open>f\<close> and \<open>g\<close> over an inner
  dimension of \<open>n\<close>.
\<close>

type_synonym entries = "nat \<Rightarrow> nat \<Rightarrow> real"

definition mm :: "nat \<Rightarrow> entries \<Rightarrow> entries \<Rightarrow> entries" where
  "mm n f g = (\<lambda>i j. \<Sum>k<n. f i k * g k j)"

definition idm :: entries where
  "idm = (\<lambda>i j. if i = j then 1 else 0)"

primrec mpow :: "(real, unit) matrix \<Rightarrow> nat \<Rightarrow> (real, unit) matrix" where
  "mpow M 0 = Matrix (nrows M) (nrows M) () idm"
| "mpow M (Suc i) = Matrix (nrows M) (ncols M) () (mm (ncols M) (entry (mpow M i)) (entry M))"

text \<open>
  The inverse by Gauss-Jordan elimination on the matrix and, beside it, the identity:
  for each column the first row at or below the diagonal with a non-zero entry is
  swapped to the diagonal and scaled to 1, and the column is cleared in all other rows.
  A column without such a row makes the matrix singular. In exact arithmetic the choice
  of the pivot does not change the result.
\<close>

definition swap_rows :: "nat \<Rightarrow> nat \<Rightarrow> entries \<Rightarrow> entries" where
  "swap_rows c r f = (\<lambda>i j. f (if i = c then r else if i = r then c else i) j)"

definition scale_row :: "nat \<Rightarrow> real \<Rightarrow> entries \<Rightarrow> entries" where
  "scale_row c a f = (\<lambda>i j. if i = c then f c j / a else f i j)"

definition eliminate :: "nat \<Rightarrow> (nat \<Rightarrow> real) \<Rightarrow> entries \<Rightarrow> entries" where
  "eliminate c u f = (\<lambda>i j. if i = c then f c j else f i j - u i * f c j)"

definition find_pivot :: "nat \<Rightarrow> entries \<Rightarrow> nat \<Rightarrow> nat option" where
  "find_pivot n f c = find (\<lambda>r. f r c \<noteq> 0) [c..<n]"

definition gj_step :: "nat \<Rightarrow> nat \<Rightarrow> entries \<times> entries \<Rightarrow> (entries \<times> entries) option" where
  "gj_step n c fg =
     (case find_pivot n (fst fg) c of
        None \<Rightarrow> None
      | Some r \<Rightarrow>
          (let a = fst fg r c; u = (\<lambda>i. scale_row c a (swap_rows c r (fst fg)) i c)
           in Some (eliminate c u (scale_row c a (swap_rows c r (fst fg))),
                    eliminate c u (scale_row c a (swap_rows c r (snd fg))))))"

text \<open>\<open>gj_rec n k\<close> works on the last \<open>k\<close> of the \<open>n\<close> columns.\<close>

primrec gj_rec :: "nat \<Rightarrow> nat \<Rightarrow> entries \<times> entries \<Rightarrow> entries option" where
  "gj_rec n 0 fg = Some (snd fg)"
| "gj_rec n (Suc k) fg =
     (case gj_step n (n - Suc k) fg of None \<Rightarrow> None | Some fg' \<Rightarrow> gj_rec n k fg')"

definition gauss_jordan :: "nat \<Rightarrow> entries \<Rightarrow> entries option" where
  "gauss_jordan n f = gj_rec n n (f, idm)"

text \<open>
  What the elimination keeps true, for the proofs about it: \<open>eqm n\<close> is equality of the
  entries inside the \<open>n \<times> n\<close> square; the matrix beside has a left inverse; the first \<open>c\<close>
  columns of the matrix worked on are those of the identity.
\<close>

definition eqm :: "nat \<Rightarrow> entries \<Rightarrow> entries \<Rightarrow> bool" where
  "eqm n f g \<longleftrightarrow> (\<forall>i<n. \<forall>j<n. f i j = g i j)"

definition left_inv :: "nat \<Rightarrow> entries \<Rightarrow> bool" where
  "left_inv n g \<longleftrightarrow> (\<exists>h. eqm n (mm n h g) idm)"

definition cols :: "nat \<Rightarrow> nat \<Rightarrow> entries \<Rightarrow> bool" where
  "cols n c f \<longleftrightarrow> (\<forall>j<c. \<forall>i<n. f i j = idm i j)"

text \<open>
  The coefficients of a product of polynomials (\<^verbatim>\<open>np.convolve\<close>); \<^verbatim>\<open>np.poly\<close> multiplies
  the factors \<open>x - z\<close> one after the other.
\<close>

definition convolve :: "real list \<Rightarrow> real list \<Rightarrow> real list" where
  "convolve a v =
     map (\<lambda>n. \<Sum>i\<leftarrow>[0..<length a]. if i \<le> n \<and> n - i < length v then a ! i * v ! (n - i) else 0)
       [0..<length a + length v - 1]"

definition poly_coeffs :: "real list \<Rightarrow> real list" where
  "poly_coeffs zs = foldl (\<lambda>a z. convolve a [1, - z]) [1] zs"

text \<open>
  The pseudo-inverse is not computed by an elimination, and it stays a parameter:
  \<open>pinv M i j\<close> is the entry \<open>(i, j)\<close> of the pseudo-inverse of \<open>M\<close>.
\<close>

definition exact :: "((real, unit) matrix \<Rightarrow> nat \<Rightarrow> nat \<Rightarrow> real) \<Rightarrow> (real, unit) numpy" where
  "exact pinv =
     \<lparr>float64 = (), zero_f64 = 0, one_f64 = 1, int_type = (), of_pyint = real_of_int,
      astype = (\<lambda>d x. x), result_type = (\<lambda>d e. ()),
      scalar_add = (+), scalar_sub = (-), scalar_eq = (=),
      int_times = (\<lambda>k x. real_of_int k * x), int_times_type = (\<lambda>k d. ()),
      number_times = (\<lambda>x y. y * x), number_times_type = (\<lambda>x d. ()),
      dot_impl = (\<lambda>M N. Matrix (nrows M) (ncols N) () (mm (ncols M) (entry M) (entry N))),
      vecdot_impl = (\<lambda>v M. Ndarray (ncols M) () (\<lambda>j. \<Sum>k<len v. elem v k * entry M k j)),
      power_impl = mpow,
      inv_impl = (\<lambda>M. map_option (Matrix (nrows M) (ncols M) ())
                        (gauss_jordan (nrows M) (entry M))),
      pinv_impl = (\<lambda>M. Some (Matrix (ncols M) (nrows M) () (pinv M))),
      poly_impl = (\<lambda>zs. Ndarray (length (poly_coeffs zs)) () (\<lambda>k. poly_coeffs zs ! k))\<rparr>"

section \<open>Concrete models\<close>

text \<open>
  The model of the repository's test (\<^verbatim>\<open>setUp\<close> of \<^verbatim>\<open>test_statespace.py\<close>), with a
  sampling time to choose; a model with one state, one input and one output; and a
  model with one state, one input and two outputs.
\<close>

definition test_ss :: "real option \<Rightarrow> (real, unit) StateSpace" where
  "test_ss t =
     \<lparr>inputs = 1, outputs = 1, dt = t, A = of_rows () [[0, 1], [-4, -1/2]],
      B = of_rows () [[0], [1]], C = of_rows () [[4, 0]], D = of_rows () [[0]]\<rparr>"

definition siso :: "real \<Rightarrow> real \<Rightarrow> real \<Rightarrow> real \<Rightarrow> real option \<Rightarrow> (real, unit) StateSpace" where
  "siso a b c d t =
     \<lparr>inputs = 1, outputs = 1, dt = t, A = of_rows () [[a]], B = of_rows () [[b]],
      C = of_rows () [[c]], D = of_rows () [[d]]\<rparr>"

definition simo :: "real option \<Rightarrow> (real, unit) StateSpace" where
  "simo t =
     \<lparr>inputs = 1, outputs = 2, dt = t, A = of_rows () [[1]], B = of_rows () [[1]],
      C = of_rows () [[1], [1]], D = of_rows () [[0], [0]]\<rparr>"

text \<open>
  A model with one state, two inputs and one output; and \<open>no_pinv\<close>, which stands in for
  the pseudo-inverse in the examples: where one of them takes it (of the \<open>2 \<times> 1\<close> matrix
  \<open>F\<close> of a feedback loop that does not fit), only the shape of the result is looked at.
\<close>

definition miso :: "real option \<Rightarrow> (real, unit) StateSpace" where
  "miso t =
     \<lparr>inputs = 2, outputs = 1, dt = t, A = of_rows () [[1]], B = of_rows () [[1, 1]],
      C = of_rows () [[1]], D = of_rows () [[0, 0]]\<rparr>"

definition no_pinv :: "(real, unit) matrix \<Rightarrow> nat \<Rightarrow> nat \<Rightarrow> real" where
  "no_pinv M i j = 0"

text \<open>
  A model of one input whose two states move alike: its controllability matrix
  \<open>[[1, 1], [1, 1]]\<close> is singular.
\<close>

definition uncontrollable_ss :: "(real, unit) StateSpace" where
  "uncontrollable_ss =
     \<lparr>inputs = 1, outputs = 1, dt = None, A = of_rows () [[1, 0], [0, 1]],
      B = of_rows () [[1], [1]], C = of_rows () [[1, 0]], D = of_rows () [[0]]\<rparr>"

text \<open>
  A matrix of real numbers is invertible when some matrix is its inverse from both
  sides, in exact arithmetic.
\<close>

definition invertible :: "(real, unit) matrix \<Rightarrow> bool" where
  "invertible M \<longleftrightarrow>
     (\<exists>G :: (real, unit) matrix. nrows G = ncols M \<and> ncols G = nrows M \<and>
        (\<forall>i < nrows M. \<forall>j < nrows M.
           (\<Sum>k<ncols M. entry M i k * entry G k j) = (if i = j then 1 else 0)) \<and>
        (\<forall>i < ncols M. \<forall>j < ncols M.
           (\<Sum>k<nrows M. entry G i k * entry M k j) = (if i = j then 1 else 0)))"
section \<open>Shapes and entries of the numpy operations\<close>

lemma bindE_Inl [simp]: "bindE (Inl e) f = Inl e"
  by (simp add: bindE_def)

lemma bindE_Inr [simp]: "bindE (Inr x) f = f x"
  by (simp add: bindE_def)

lemma bindE_eq_Inr: "bindE m f = Inr y \<longleftrightarrow> (\<exists>x. m = Inr x \<and> f x = Inr y)"
  by (cases m) simp_all

lemma bidx_less [simp]: "i < d \<Longrightarrow> bidx d i = i"
  by (auto simp: bidx_def)

lemma bdim_same [simp]: "bdim a a = a"
  by (simp add: bdim_def)

lemma broadcastable_same [simp]: "broadcastable a a"
  by (simp add: broadcastable_def)

lemma shape_eq_iff: "shape M = shape N \<longleftrightarrow> nrows M = nrows N \<and> ncols M = ncols N"
  by (simp add: shape_def)

lemma np_zeros_sel [simp]:
  "nrows (np_zeros np r c) = r" "ncols (np_zeros np r c) = c"
  "dtype (np_zeros np r c) = float64 np" "entry (np_zeros np r c) i j = zero_f64 np"
  by (simp_all add: np_zeros_def)

lemma np_ones_sel [simp]:
  "nrows (np_ones np r c) = r" "ncols (np_ones np r c) = c"
  "dtype (np_ones np r c) = float64 np" "entry (np_ones np r c) i j = one_f64 np"
  by (simp_all add: np_ones_def)

lemma np_eye_sel [simp]:
  "nrows (np_eye np n) = n" "ncols (np_eye np n) = n" "dtype (np_eye np n) = float64 np"
  "entry (np_eye np n) i j = (if i = j then one_f64 np else zero_f64 np)"
  by (simp_all add: np_eye_def)

lemma mat_T_sel [simp]:
  "nrows (mat_T M) = ncols M" "ncols (mat_T M) = nrows M" "dtype (mat_T M) = dtype M"
  "entry (mat_T M) i j = entry M j i"
  by (simp_all add: mat_T_def)

lemma smul_sel [simp]:
  "nrows (smul np x M) = nrows M" "ncols (smul np x M) = ncols M"
  "dtype (smul np x M) = int_times_type np x (dtype M)"
  "entry (smul np x M) i j = int_times np x (entry M i j)"
  by (simp_all add: smul_def)

lemma dot_sel [simp]:
  "nrows (dot np M N) = nrows M" "ncols (dot np M N) = ncols N"
  by (simp_all add: dot_def)

lemma elementwise_sel [simp]:
  "nrows (elementwise np f M N) = bdim (nrows M) (nrows N)"
  "ncols (elementwise np f M N) = bdim (ncols M) (ncols N)"
  "dtype (elementwise np f M N) = result_type np (dtype M) (dtype N)"
  by (simp_all add: elementwise_def)

lemma elementwise_entry:
  "entry (elementwise np f M N) i j =
     f (entry M (bidx (nrows M) i) (bidx (ncols M) j))
       (entry N (bidx (nrows N) i) (bidx (ncols N) j))"
  by (simp add: elementwise_def)

lemma vstack_sel [simp]:
  "nrows (vstack np M N) = nrows M + nrows N" "ncols (vstack np M N) = ncols M"
  "dtype (vstack np M N) = result_type np (dtype M) (dtype N)"
  "entry (vstack np M N) i j =
     astype np (result_type np (dtype M) (dtype N))
       (if i < nrows M then entry M i j else entry N (i - nrows M) j)"
  by (simp_all add: vstack_def)

lemma hstack_sel [simp]:
  "nrows (hstack np M N) = nrows M" "ncols (hstack np M N) = ncols M + ncols N"
  "dtype (hstack np M N) = result_type np (dtype M) (dtype N)"
  "entry (hstack np M N) i j =
     astype np (result_type np (dtype M) (dtype N))
       (if j < ncols M then entry M i j else entry N i (j - ncols M))"
  by (simp_all add: hstack_def)

lemma slice_assigned_sel [simp]:
  "nrows (slice_assigned np M rlo rhi clo chi V) = nrows M"
  "ncols (slice_assigned np M rlo rhi clo chi V) = ncols M"
  "dtype (slice_assigned np M rlo rhi clo chi V) = dtype M"
  by (simp_all add: slice_assigned_def)

lemma slice_assigned_entry:
  "entry (slice_assigned np M rlo rhi clo chi V) i j =
     (if rlo \<le> i \<and> i < rhi \<and> clo \<le> j \<and> j < chi
      then astype np (dtype M) (entry V (bidx (nrows V) (i - rlo)) (bidx (ncols V) (j - clo)))
      else entry M i j)"
  by (simp add: slice_assigned_def)

lemma matmul_ok [simp]: "ncols M = nrows N \<Longrightarrow> matmul np M N = Inr (dot np M N)"
  by (simp add: matmul_def)

lemma np_add_same_shape [simp]:
  "nrows M = nrows N \<Longrightarrow> ncols M = ncols N \<Longrightarrow>
   np_add np M N = Inr (elementwise np (scalar_add np) M N)"
  by (simp add: np_add_def)

lemma np_sub_same_shape [simp]:
  "nrows M = nrows N \<Longrightarrow> ncols M = ncols N \<Longrightarrow>
   np_sub np M N = Inr (elementwise np (scalar_sub np) M N)"
  by (simp add: np_sub_def)

lemma np_concatenate0_ok [simp]:
  "ncols M = ncols N \<Longrightarrow> np_concatenate0 np M N = Inr (vstack np M N)"
  by (simp add: np_concatenate0_def)

lemma np_concatenate1_ok [simp]:
  "nrows M = nrows N \<Longrightarrow> np_concatenate1 np M N = Inr (hstack np M N)"
  by (simp add: np_concatenate1_def)

lemma set_slice_exact:
  "r0 \<le> r1 \<Longrightarrow> r1 \<le> nrows M \<Longrightarrow> c0 \<le> c1 \<Longrightarrow> c1 \<le> ncols M \<Longrightarrow>
   nrows V = r1 - r0 \<Longrightarrow> ncols V = c1 - c0 \<Longrightarrow>
   set_slice np M r0 r1 c0 c1 V = Inr (slice_assigned np M r0 r1 c0 c1 V)"
  by (simp add: set_slice_def Let_def min_def max_def)

lemma of_rows_sel [simp]:
  "nrows (of_rows d (r # rs)) = Suc (length rs)" "ncols (of_rows d (r # rs)) = length r"
  "dtype (of_rows d rs') = d" "entry (of_rows d rs') i j = rs' ! i ! j"
  by (simp_all add: of_rows_def)

lemma array_equal_iff:
  "array_equal np M N \<longleftrightarrow>
     nrows M = nrows N \<and> ncols M = ncols N \<and>
     (\<forall>i < nrows M. \<forall>j < ncols M. scalar_eq np (entry M i j) (entry N i j))"
  by (auto simp: array_equal_def shape_def to_rows_def list_all2_conv_all_nth)

lemma valid_shapes:
  assumes "valid s"
  shows "ncols (A s) = nrows (A s)" "nrows (B s) = nrows (A s)" "ncols (C s) = nrows (A s)"
    "nrows (D s) = nrows (C s)" "ncols (D s) = ncols (B s)"
    "inputs s = ncols (B s)" "outputs s = nrows (C s)"
  using assms by (auto simp: valid_def shape_def)

section \<open>The instance of exact arithmetic\<close>

lemma exact_sel [simp]:
  "float64 (exact p) = ()" "zero_f64 (exact p) = 0" "one_f64 (exact p) = 1"
  "of_pyint (exact p) = real_of_int" "astype (exact p) d x = x"
  "scalar_add (exact p) = (+)" "scalar_sub (exact p) = (-)" "scalar_eq (exact p) = (=)"
  "int_times (exact p) k x = real_of_int k * x" "number_times (exact p) y x = x * y"
  "dot_impl (exact p) M N = Matrix (nrows M) (ncols N) () (mm (ncols M) (entry M) (entry N))"
  "vecdot_impl (exact p) v M = Ndarray (ncols M) () (\<lambda>j. \<Sum>k<len v. elem v k * entry M k j)"
  "power_impl (exact p) = mpow"
  "inv_impl (exact p) M =
     map_option (Matrix (nrows M) (ncols M) ()) (gauss_jordan (nrows M) (entry M))"
  "pinv_impl (exact p) M = Some (Matrix (ncols M) (nrows M) () (p M))"
  "poly_impl (exact p) zs = Ndarray (length (poly_coeffs zs)) () (\<lambda>k. poly_coeffs zs ! k)"
  by (simp_all add: exact_def)

lemma valid_test_ss [simp]: "valid (test_ss t)"
  by (simp add: valid_def test_ss_def shape_def)

lemma valid_siso [simp]: "valid (siso a b c d t)"
  by (simp add: valid_def siso_def shape_def)

lemma valid_simo [simp]: "valid (simo t)"
  by (simp add: valid_def simo_def shape_def)

lemma valid_miso [simp]: "valid (miso t)"
  by (simp add: valid_def miso_def shape_def)

lemma valid_uncontrollable_ss [simp]: "valid uncontrollable_ss"
  by (simp add: valid_def uncontrollable_ss_def shape_def)

section \<open>Gauss-Jordan elimination computes the inverse\<close>

text \<open>The algebra of products.\<close>

lemma mm_assoc: "mm n (mm n f g) h = mm n f (mm n g h)"
proof (intro ext)
  fix i j
  have "mm n (mm n f g) h i j = (\<Sum>k<n. \<Sum>l<n. f i l * g l k * h k j)"
    by (simp add: mm_def sum_distrib_right)
  also have "\<dots> = (\<Sum>l<n. \<Sum>k<n. f i l * g l k * h k j)"
    by (rule sum.swap)
  also have "\<dots> = mm n f (mm n g h) i j"
    by (simp add: mm_def sum_distrib_left mult.assoc)
  finally show "mm n (mm n f g) h i j = mm n f (mm n g h) i j" .
qed

lemma eqm_refl [simp]: "eqm n f f" by (simp add: eqm_def)
lemma eqm_sym: "eqm n f g \<Longrightarrow> eqm n g f" by (simp add: eqm_def)
lemma eqm_trans: "eqm n f g \<Longrightarrow> eqm n g h \<Longrightarrow> eqm n f h" by (simp add: eqm_def)

lemma mm_cong: "eqm n f f' \<Longrightarrow> eqm n g g' \<Longrightarrow> eqm n (mm n f g) (mm n f' g')"
  by (simp add: eqm_def mm_def)

lemma sum_delta_left:
  "i < (n::nat) \<Longrightarrow> (\<Sum>k<n. (if i = k then 1 else 0) * x k) = (x i :: real)"
proof -
  assume "i < n"
  have "(\<Sum>k<n. (if i = k then 1 else 0) * x k) = (\<Sum>k\<in>{..<n}. if k = i then x k else 0)"
    by (intro sum.cong) auto
  also have "\<dots> = x i" using \<open>i < n\<close> by simp
  finally show ?thesis .
qed

lemma sum_delta_right:
  "j < (n::nat) \<Longrightarrow> (\<Sum>k<n. x k * (if k = j then 1 else 0)) = (x j :: real)"
proof -
  assume "j < n"
  have "(\<Sum>k<n. x k * (if k = j then 1 else 0)) = (\<Sum>k\<in>{..<n}. if k = j then x k else 0)"
    by (intro sum.cong) auto
  also have "\<dots> = x j" using \<open>j < n\<close> by simp
  finally show ?thesis .
qed

lemma mm_idm_left: "eqm n (mm n idm f) f"
  by (simp add: eqm_def mm_def idm_def sum_delta_left)

lemma mm_idm_right: "eqm n (mm n f idm) f"
  by (simp add: eqm_def mm_def idm_def sum_delta_right)

text \<open>A row operation on a product is the row operation on its left factor.\<close>

lemma swap_rows_mm: "mm n (swap_rows c r g) M = swap_rows c r (mm n g M)"
  by (simp add: mm_def swap_rows_def)

lemma scale_row_mm: "mm n (scale_row c a g) M = scale_row c a (mm n g M)"
proof (intro ext)
  fix i j
  show "mm n (scale_row c a g) M i j = scale_row c a (mm n g M) i j"
    by (cases "i = c") (simp_all add: mm_def scale_row_def sum_divide_distrib)
qed

lemma eliminate_mm: "mm n (eliminate c u g) M = eliminate c u (mm n g M)"
proof (intro ext)
  fix i j
  show "mm n (eliminate c u g) M i j = eliminate c u (mm n g M) i j"
    by (cases "i = c")
       (simp_all add: mm_def eliminate_def left_diff_distrib sum_subtractf sum_distrib_left
          mult.assoc)
qed

text \<open>
  The invariants of the elimination: the matrix beside has a left inverse, and the first
  \<open>c\<close> columns of the matrix worked on are those of the identity.
\<close>

lemma swap_rows_left:
  assumes "c < n" "r < n"
  shows "mm n (\<lambda>i j. h i (if j = c then r else if j = r then c else j)) (swap_rows c r g) = mm n h g"
proof (intro ext)
  fix i j
  let ?s = "\<lambda>k. if k = c then r else if k = r then c else k"
  have "(\<Sum>k<n. h i (?s k) * g (?s k) j) = (\<Sum>k<n. h i k * g k j)"
    by (rule sum.reindex_bij_witness [of _ ?s ?s]) (use assms in \<open>auto split: if_splits\<close>)
  then show "mm n (\<lambda>i j. h i (?s j)) (swap_rows c r g) i j = mm n h g i j"
    by (simp add: mm_def swap_rows_def)
qed

lemma scale_row_left:
  assumes "a \<noteq> 0"
  shows "mm n (\<lambda>i j. if j = c then h i c * a else h i j) (scale_row c a g) = mm n h g"
proof (intro ext)
  fix i j
  show "mm n (\<lambda>i j. if j = c then h i c * a else h i j) (scale_row c a g) i j = mm n h g i j"
    unfolding mm_def scale_row_def using assms by (intro sum.cong refl) simp
qed

lemma eliminate_zero: "eliminate c u f = eliminate c (\<lambda>i. if i = c then 0 else u i) f"
  unfolding eliminate_def by (intro ext) simp

lemma eliminate_left:
  assumes "c < n" "u c = 0"
  shows "mm n (\<lambda>i j. h i j + (if j = c then \<Sum>k<n. h i k * u k else 0)) (eliminate c u g) = mm n h g"
proof (intro ext)
  fix i j
  let ?S = "\<Sum>k<n. h i k * u k"
  have e: "eliminate c u g k j = g k j - u k * g c j" for k
    using assms(2) by (simp add: eliminate_def)
  have "mm n (\<lambda>i j. h i j + (if j = c then \<Sum>k<n. h i k * u k else 0)) (eliminate c u g) i j =
     (\<Sum>k<n. (h i k * g k j - (h i k * u k) * g c j) + (if k = c then ?S * (g k j - u k * g c j) else 0))"
    unfolding mm_def e by (intro sum.cong refl) (simp add: algebra_simps)
  also have "\<dots> = (\<Sum>k<n. h i k * g k j) - ?S * g c j + ?S * (g c j - u c * g c j)"
    using assms(1) by (simp add: sum.distrib sum_subtractf sum_distrib_right)
  also have "\<dots> = mm n h g i j"
    using assms(2) by (simp add: mm_def)
  finally show "mm n (\<lambda>i j. h i j + (if j = c then \<Sum>k<n. h i k * u k else 0)) (eliminate c u g) i j = mm n h g i j" .
qed

lemma left_inv_swap: "c < n \<Longrightarrow> r < n \<Longrightarrow> left_inv n g \<Longrightarrow> left_inv n (swap_rows c r g)"
proof -
  assume c: "c < n" "r < n" and "left_inv n g"
  then obtain h where h: "eqm n (mm n h g) idm" by (auto simp: left_inv_def)
  let ?h = "\<lambda>i j. h i (if j = c then r else if j = r then c else j)"
  from h swap_rows_left [OF c, of h g]
  have "eqm n (mm n ?h (swap_rows c r g)) idm"
    by simp
  then show ?thesis unfolding left_inv_def by (rule exI [of _ ?h])
qed

lemma left_inv_scale: "a \<noteq> 0 \<Longrightarrow> left_inv n g \<Longrightarrow> left_inv n (scale_row c a g)"
proof -
  assume a: "a \<noteq> 0" and "left_inv n g"
  then obtain h where h: "eqm n (mm n h g) idm" by (auto simp: left_inv_def)
  let ?h = "\<lambda>i j. if j = c then h i c * a else h i j"
  from h scale_row_left [OF a, of n c h g]
  have "eqm n (mm n ?h (scale_row c a g)) idm"
    by simp
  then show ?thesis unfolding left_inv_def by (rule exI [of _ ?h])
qed

lemma left_inv_eliminate: "c < n \<Longrightarrow> left_inv n g \<Longrightarrow> left_inv n (eliminate c u g)"
proof -
  assume c: "c < n" and "left_inv n g"
  then obtain h where h: "eqm n (mm n h g) idm" by (auto simp: left_inv_def)
  let ?u = "\<lambda>i. if i = c then 0 else u i"
  let ?h = "\<lambda>i j. h i j + (if j = c then \<Sum>k<n. h i k * ?u k else 0)"
  have "mm n ?h (eliminate c ?u g) = mm n h g"
    by (rule eliminate_left) (use c in auto)
  with h have "eqm n (mm n ?h (eliminate c ?u g)) idm" by simp
  then have "left_inv n (eliminate c ?u g)"
    unfolding left_inv_def by (rule exI [of _ ?h])
  then show ?thesis by (subst eliminate_zero)
qed

lemma find_pivot_Some:
  "find_pivot n f c = Some r \<Longrightarrow> c \<le> r \<and> r < n \<and> f r c \<noteq> 0"
  by (auto simp: find_pivot_def find_Some_iff)

lemma find_pivot_None:
  "find_pivot n f c = None \<Longrightarrow> c \<le> r \<Longrightarrow> r < n \<Longrightarrow> f r c = 0"
  by (auto simp: find_pivot_def find_None_iff)

lemma eqm_swap_rows:
  "c < n \<Longrightarrow> r < n \<Longrightarrow> eqm n f f' \<Longrightarrow> eqm n (swap_rows c r f) (swap_rows c r f')"
  by (simp add: eqm_def swap_rows_def)

lemma eqm_scale_row:
  "c < n \<Longrightarrow> eqm n f f' \<Longrightarrow> eqm n (scale_row c a f) (scale_row c a f')"
  by (simp add: eqm_def scale_row_def)

lemma eqm_eliminate:
  "c < n \<Longrightarrow> eqm n f f' \<Longrightarrow> eqm n (eliminate c u f) (eliminate c u f')"
  by (simp add: eqm_def eliminate_def)

lemma cols_step:
  assumes c: "c < n" and r: "c \<le> r" "r < n" and p: "f r c \<noteq> 0" and cs: "cols n c f"
  defines "f2 \<equiv> scale_row c (f r c) (swap_rows c r f)"
  shows "cols n (Suc c) (eliminate c (\<lambda>i. f2 i c) f2)"
proof -
  have z: "f i j = idm i j" if "j < c" "i < n" for i j
    using cs that by (simp add: cols_def)
  have f2_old: "f2 i j = idm i j" if "j < c" "i < n" for i j
    using that c r z [of j i] z [of j r] z [of j c]
    by (auto simp: f2_def scale_row_def swap_rows_def idm_def)
  have f2_cc: "f2 c c = 1"
    using p by (simp add: f2_def scale_row_def swap_rows_def)
  show ?thesis
    unfolding cols_def
  proof (intro allI impI)
    fix j i assume j: "j < Suc c" and i: "i < n"
    show "eliminate c (\<lambda>i. f2 i c) f2 i j = idm i j"
    proof (cases "j = c")
      case True
      then show ?thesis by (simp add: eliminate_def f2_cc idm_def)
    next
      case False
      with j have jc: "j < c" by simp
      from f2_old [OF jc i] f2_old [OF jc c] jc
      show ?thesis by (auto simp: eliminate_def idm_def)
    qed
  qed
qed

lemma gj_step_Some:
  assumes c: "c < n" and cs: "cols n c f" and A: "eqm n (mm n g M) f" and L: "left_inv n g"
    and st: "gj_step n c (f, g) = Some (f', g')"
  shows "cols n (Suc c) f' \<and> eqm n (mm n g' M) f' \<and> left_inv n g'"
proof -
  from st obtain r where piv: "find_pivot n f c = Some r"
    by (auto simp: gj_step_def split: option.splits)
  from find_pivot_Some [OF piv] have r: "c \<le> r" "r < n" and p: "f r c \<noteq> 0" by simp_all
  define f2 where "f2 = scale_row c (f r c) (swap_rows c r f)"
  define u where "u = (\<lambda>i. f2 i c)"
  from st piv have f': "f' = eliminate c u f2"
    and g': "g' = eliminate c u (scale_row c (f r c) (swap_rows c r g))"
    by (simp_all add: gj_step_def Let_def f2_def u_def)
  have 1: "cols n (Suc c) f'"
    unfolding f' u_def f2_def using cols_step [OF c r p cs] by simp
  have "mm n g' M = eliminate c u (scale_row c (f r c) (swap_rows c r (mm n g M)))"
    by (simp add: g' eliminate_mm scale_row_mm swap_rows_mm)
  moreover have "eqm n (eliminate c u (scale_row c (f r c) (swap_rows c r (mm n g M)))) f'"
    unfolding f' f2_def
    by (intro eqm_eliminate eqm_scale_row eqm_swap_rows c r A)
  ultimately have 2: "eqm n (mm n g' M) f'" by simp
  have 3: "left_inv n g'"
    unfolding g' by (intro left_inv_eliminate left_inv_scale left_inv_swap c r p L)
  from 1 2 3 show ?thesis by blast
qed

lemma mm_zero_right: "mm n f (\<lambda>i j. 0) = (\<lambda>i j. 0)"
  by (simp add: mm_def)

lemma kernel_zero:
  assumes fX: "eqm n (mm n f X) (\<lambda>i j. 0)" and A: "eqm n (mm n g M) f"
    and h: "eqm n (mm n h g) idm" and G: "eqm n (mm n G M) idm"
  shows "eqm n X (\<lambda>i j. 0)"
proof -
  have "eqm n (mm n (mm n g M) X) (mm n f X)"
    by (intro mm_cong A eqm_refl)
  from eqm_trans [OF this fX] have 1: "eqm n (mm n g (mm n M X)) (\<lambda>i j. 0)"
    by (simp add: mm_assoc)
  have "eqm n (mm n (mm n h g) (mm n M X)) (mm n idm (mm n M X))"
    by (intro mm_cong h eqm_refl)
  then have "eqm n (mm n h (mm n g (mm n M X))) (mm n M X)"
    unfolding mm_assoc using mm_idm_left by (rule eqm_trans)
  moreover have "eqm n (mm n h (mm n g (mm n M X))) (mm n h (\<lambda>i j. 0))"
    by (intro mm_cong 1 eqm_refl)
  ultimately have 2: "eqm n (mm n M X) (\<lambda>i j. 0)"
    unfolding mm_zero_right using eqm_sym eqm_trans by blast
  have "eqm n (mm n (mm n G M) X) (mm n idm X)"
    by (intro mm_cong G eqm_refl)
  then have "eqm n (mm n G (mm n M X)) X"
    unfolding mm_assoc using mm_idm_left by (rule eqm_trans)
  moreover have "eqm n (mm n G (mm n M X)) (mm n G (\<lambda>i j. 0))"
    by (intro mm_cong 2 eqm_refl)
  ultimately show ?thesis
    unfolding mm_zero_right using eqm_sym eqm_trans by blast
qed

lemma sum_upto_pivot:
  "c < (n::nat) \<Longrightarrow> (\<Sum>k<n. if k = c then a else if k < c then b k else 0) = a + (\<Sum>k<c. (b k :: real))"
proof -
  assume c: "c < n"
  have "(\<Sum>k<n. if k = c then a else if k < c then b k else 0)
      = (\<Sum>k<Suc c. if k = c then a else if k < c then b k else 0)"
    by (rule sum.mono_neutral_right) (use c in auto)
  also have "\<dots> = a + (\<Sum>k<c. b k)" by simp
  finally show ?thesis .
qed

lemma gj_step_None:
  assumes c: "c < n" and cs: "cols n c f" and A: "eqm n (mm n g M) f" and L: "left_inv n g"
    and st: "gj_step n c (f, g) = None" and G: "eqm n (mm n G M) idm"
  shows False
proof -
  from st have piv: "find_pivot n f c = None"
    by (auto simp: gj_step_def Let_def split: option.splits)
  define X :: entries where "X = (\<lambda>i j. if i = c then 1 else if i < c then - f i c else 0)"
  have "mm n f X i j = 0" if i: "i < n" for i j
  proof -
    have "mm n f X i j = (\<Sum>k<n. if k = c then f i c else if k < c then - (idm i k * f k c) else 0)"
      unfolding mm_def X_def using cs i by (intro sum.cong refl) (auto simp: cols_def)
    also have "\<dots> = f i c + (\<Sum>k<c. - (idm i k * f k c))"
      by (rule sum_upto_pivot [OF c])
    also have "\<dots> = f i c - (\<Sum>k<c. (if i = k then 1 else 0) * f k c)"
      by (simp add: sum_negf idm_def)
    also have "\<dots> = 0"
    proof (cases "i < c")
      case True
      then show ?thesis by (simp add: sum_delta_left)
    next
      case False
      then have "(\<Sum>k<c. (if i = k then 1 else 0) * f k c) = 0"
        by (intro sum.neutral) auto
      moreover from False i have "f i c = 0"
        using find_pivot_None [OF piv, of i] by simp
      ultimately show ?thesis by simp
    qed
    finally show ?thesis .
  qed
  then have fX: "eqm n (mm n f X) (\<lambda>i j. 0)" by (simp add: eqm_def)
  from L obtain h where h: "eqm n (mm n h g) idm" by (auto simp: left_inv_def)
  from kernel_zero [OF fX A h G] c have "X c 0 = 0"
    by (auto simp: eqm_def)
  then show False by (simp add: X_def)
qed

lemma cols_full: "cols n n f \<Longrightarrow> eqm n f idm"
  by (simp add: cols_def eqm_def)

lemma gj_rec_sound:
  assumes "k \<le> n" "cols n (n - k) f" "eqm n (mm n g M) f" "left_inv n g"
    "gj_rec n k (f, g) = Some g'"
  shows "eqm n (mm n g' M) idm \<and> left_inv n g'"
  using assms
proof (induction k arbitrary: f g)
  case 0
  then show ?case using cols_full [of n f] eqm_trans by auto
next
  case (Suc k)
  from Suc.prems(5) obtain f1 g1 where st: "gj_step n (n - Suc k) (f, g) = Some (f1, g1)"
    and rest: "gj_rec n k (f1, g1) = Some g'"
    by (auto split: option.splits)
  from Suc.prems(1) have c: "n - Suc k < n" and s: "Suc (n - Suc k) = n - k" by simp_all
  from gj_step_Some [OF c Suc.prems(2,3,4) st]
  have "cols n (n - k) f1" "eqm n (mm n g1 M) f1" "left_inv n g1"
    by (simp_all add: s)
  from Suc.IH [OF _ this rest] Suc.prems(1) show ?case by simp
qed

lemma gj_rec_complete:
  assumes "k \<le> n" "cols n (n - k) f" "eqm n (mm n g M) f" "left_inv n g"
    and G: "eqm n (mm n G M) idm"
  shows "gj_rec n k (f, g) \<noteq> None"
  using assms(1-4)
proof (induction k arbitrary: f g)
  case 0
  then show ?case by simp
next
  case (Suc k)
  from Suc.prems(1) have c: "n - Suc k < n" and s: "Suc (n - Suc k) = n - k" by simp_all
  show ?case
  proof (cases "gj_step n (n - Suc k) (f, g)")
    case None
    from gj_step_None [OF c Suc.prems(2,3,4) None G] show ?thesis ..
  next
    case (Some fg)
    then obtain f1 g1 where st: "gj_step n (n - Suc k) (f, g) = Some (f1, g1)"
      by (cases fg) simp
    from gj_step_Some [OF c Suc.prems(2,3,4) st]
    have "cols n (n - k) f1" "eqm n (mm n g1 M) f1" "left_inv n g1"
      by (simp_all add: s)
    from Suc.IH [OF _ this] Suc.prems(1) st show ?thesis by simp
  qed
qed

lemma gj_init:
  "cols n (n - n) M" "eqm n (mm n idm M) M" "left_inv n idm"
proof -
  show "cols n (n - n) M" by (simp add: cols_def)
  show "eqm n (mm n idm M) M" by (rule mm_idm_left)
  show "left_inv n idm" unfolding left_inv_def by (rule exI [of _ idm]) (rule mm_idm_left)
qed

lemma gauss_jordan_Some:
  assumes "gauss_jordan n M = Some g"
  shows "eqm n (mm n g M) idm \<and> eqm n (mm n M g) idm"
proof -
  from gj_rec_sound [OF le_refl gj_init assms [unfolded gauss_jordan_def]]
  have gM: "eqm n (mm n g M) idm" and "left_inv n g" by simp_all
  then obtain h where h: "eqm n (mm n h g) idm" by (auto simp: left_inv_def)
  have "eqm n (mm n (mm n h g) M) (mm n idm M)" by (intro mm_cong h eqm_refl)
  then have 1: "eqm n (mm n h (mm n g M)) M"
    unfolding mm_assoc using mm_idm_left by (rule eqm_trans)
  have "eqm n (mm n h (mm n g M)) (mm n h idm)" by (intro mm_cong gM eqm_refl)
  then have 2: "eqm n (mm n h (mm n g M)) h" using mm_idm_right by (rule eqm_trans)
  from 1 2 have "eqm n M h" using eqm_sym eqm_trans by blast
  then have "eqm n (mm n M g) (mm n h g)" by (intro mm_cong eqm_refl)
  then have "eqm n (mm n M g) idm" using h by (rule eqm_trans)
  with gM show ?thesis by simp
qed

lemma gauss_jordan_None:
  assumes "gauss_jordan n M = None"
  shows "\<not> (\<exists>G. eqm n (mm n G M) idm)"
proof
  assume "\<exists>G. eqm n (mm n G M) idm"
  then obtain G where G: "eqm n (mm n G M) idm" ..
  from gj_rec_complete [OF le_refl gj_init G] assms show False by (simp add: gauss_jordan_def)
qed


text \<open>The inversion of the instance of exact arithmetic.\<close>

lemma exact_inv_Inr:
  assumes "np_linalg_inv (exact p) M = Inr G"
  shows "eqm (nrows M) (mm (nrows M) (entry M) (entry G)) idm"
    and "eqm (nrows M) (mm (nrows M) (entry G) (entry M)) idm"
proof -
  from assms have sq: "nrows M = ncols M"
    by (auto simp: np_linalg_inv_def split: if_splits)
  from assms sq obtain g where g: "gauss_jordan (nrows M) (entry M) = Some g"
    and G: "entry G = g"
    by (auto simp: np_linalg_inv_def split: option.splits)
  from gauss_jordan_Some [OF g] G
  show "eqm (nrows M) (mm (nrows M) (entry M) (entry G)) idm"
    and "eqm (nrows M) (mm (nrows M) (entry G) (entry M)) idm"
    by simp_all
qed

lemma exact_inv_iff:
  assumes "nrows M = ncols M"
  shows "(\<exists>G. np_linalg_inv (exact p) M = Inr G) \<longleftrightarrow> invertible M"
proof
  assume "\<exists>G. np_linalg_inv (exact p) M = Inr G"
  then obtain G where G: "np_linalg_inv (exact p) M = Inr G" ..
  from G assms have sh: "nrows G = ncols M" "ncols G = nrows M"
    by (auto simp: np_linalg_inv_def split: if_splits option.splits)
  from exact_inv_Inr [OF G] assms sh show "invertible M"
    unfolding invertible_def by (intro exI [of _ G]) (simp add: eqm_def mm_def idm_def)
next
  assume "invertible M"
  then obtain G :: "(real, unit) matrix" where
    "\<forall>i < ncols M. \<forall>j < ncols M.
       (\<Sum>k<nrows M. entry G i k * entry M k j) = (if i = j then 1 else 0)"
    by (auto simp: invertible_def)
  with assms have "eqm (nrows M) (mm (nrows M) (entry G) (entry M)) idm"
    by (simp add: eqm_def mm_def idm_def)
  then have "gauss_jordan (nrows M) (entry M) \<noteq> None"
    using gauss_jordan_None [of "nrows M" "entry M"] by blast
  with assms show "\<exists>G. np_linalg_inv (exact p) M = Inr G"
    by (auto simp: np_linalg_inv_def)
qed

lemma exact_inv_singular:
  assumes "nrows M = ncols M"
  shows "np_linalg_inv (exact p) M = Inl LinAlgError \<longleftrightarrow> \<not> invertible M"
proof (cases "np_linalg_inv (exact p) M")
  case (Inl e)
  then have "e = LinAlgError"
    by (auto simp: np_linalg_inv_def split: if_splits option.splits)
  with Inl exact_inv_iff [OF assms, of p] show ?thesis by simp
next
  case (Inr G)
  with exact_inv_iff [OF assms, of p] show ?thesis by auto
qed

lemma exact_inv_1x1:
  assumes "nrows M = 1" "ncols M = 1"
  shows "np_linalg_inv (exact p) M = Inl LinAlgError \<longleftrightarrow> entry M 0 0 = 0"
  using assms
  by (auto simp: np_linalg_inv_def gauss_jordan_def gj_step_def find_pivot_def Let_def
      split: option.splits)

lemma exact_inv_twice:
  assumes "np_linalg_inv (exact p) M = Inr G"
  shows "\<exists>H. np_linalg_inv (exact p) G = Inr H"
proof -
  from assms have sh: "nrows M = ncols M" "nrows G = nrows M" "ncols G = nrows M"
    by (auto simp: np_linalg_inv_def split: if_splits option.splits)
  from exact_inv_Inr [OF assms] sh have "invertible G"
    unfolding invertible_def by (intro exI [of _ M]) (simp add: eqm_def mm_def idm_def)
  with exact_inv_iff [of G p] sh show ?thesis by simp
qed
section \<open>Properties of the constructor\<close>

lemma StateSpace_init_valid: "StateSpace_init a b c d t = Inr s \<Longrightarrow> valid s"
  by (auto simp: StateSpace_init_def valid_def split: if_splits)

section \<open>Construction\<close>

text \<open>
  Claim C1. Construction fails with a shape-mismatch error whenever \<open>A\<close> is not square,
  or \<open>B\<close> has not as many rows as \<open>A\<close>, or \<open>C\<close> has not as many columns as \<open>A\<close>, or the
  shape of \<open>D\<close> is not (rows of \<open>C\<close>, columns of \<open>B\<close>); when all four rules hold it
  succeeds, and the model holds exactly the four matrices given.
\<close>

theorem StateSpace_init_shape_invariant:
  "((\<exists>e. StateSpace_init a b c d t = Inl e \<and> is_ShapeMismatch e) \<longleftrightarrow>
      (nrows a \<noteq> ncols a \<or> nrows b \<noteq> nrows a \<or> ncols c \<noteq> ncols a \<or>
       shape d \<noteq> (nrows c, ncols b))) \<and>
   ((\<exists>s. StateSpace_init a b c d t = Inr s \<and>
         A s = a \<and> B s = b \<and> C s = c \<and> D s = d) \<longleftrightarrow>
      (nrows a = ncols a \<and> nrows b = nrows a \<and> ncols c = ncols a \<and>
       shape d = (nrows c, ncols b)))"
  by (auto simp: StateSpace_init_def)

text \<open>
  The matrices of the repository's test: construction succeeds on \<open>(A, B, C, D)\<close> and
  fails on \<open>(A, C, B, 0)\<close>, where the second argument has one row and \<open>A\<close> has two.
\<close>

theorem StateSpace_init_shape_invariant_witness:
  "(\<exists>s. StateSpace_init (of_rows () [[0, 1], [-4, -1/2 :: real]]) (of_rows () [[0], [1]])
          (of_rows () [[4, 0]]) (of_rows () [[0]]) None = Inr s \<and>
        A s = of_rows () [[0, 1], [-4, -1/2]] \<and> B s = of_rows () [[0], [1]] \<and>
        C s = of_rows () [[4, 0]] \<and> D s = of_rows () [[0]]) \<and>
   (\<exists>e. StateSpace_init (of_rows () [[0, 1], [-4, -1/2 :: real]]) (of_rows () [[4, 0]])
          (of_rows () [[0], [1]]) (of_rows () [[0]]) None = Inl e \<and> is_ShapeMismatch e)"
  using StateSpace_init_shape_invariant
      [of "of_rows () [[0, 1], [-4, -1/2 :: real]]" "of_rows () [[0], [1]]"
          "of_rows () [[4, 0]]" "of_rows () [[0]]" None]
    StateSpace_init_shape_invariant
      [of "of_rows () [[0, 1], [-4, -1/2 :: real]]" "of_rows () [[4, 0]]"
          "of_rows () [[0], [1]]" "of_rows () [[0]]" None]
  by (simp add: shape_def)

section \<open>Equality\<close>

text \<open>
  Claim C10. Equality of models compares the four matrices and nothing else: whatever
  the sampling times of the two models are, set or not, the models compare equal exactly
  when their \<open>A\<close>, their \<open>B\<close>, their \<open>C\<close> and their \<open>D\<close> have the same shape and are
  element-wise equal (by numpy's \<^verbatim>\<open>==\<close>); and changing the sampling times never changes
  the outcome of the comparison.
\<close>

theorem StateSpace_eq_ignores_dt:
  "(StateSpace_eq np (s1\<lparr>dt := t1\<rparr>) (s2\<lparr>dt := t2\<rparr>) \<longleftrightarrow>
      (shape (A s1) = shape (A s2) \<and>
       (\<forall>i < nrows (A s1). \<forall>j < ncols (A s1).
          scalar_eq np (entry (A s1) i j) (entry (A s2) i j))) \<and>
      (shape (B s1) = shape (B s2) \<and>
       (\<forall>i < nrows (B s1). \<forall>j < ncols (B s1).
          scalar_eq np (entry (B s1) i j) (entry (B s2) i j))) \<and>
      (shape (C s1) = shape (C s2) \<and>
       (\<forall>i < nrows (C s1). \<forall>j < ncols (C s1).
          scalar_eq np (entry (C s1) i j) (entry (C s2) i j))) \<and>
      (shape (D s1) = shape (D s2) \<and>
       (\<forall>i < nrows (D s1). \<forall>j < ncols (D s1).
          scalar_eq np (entry (D s1) i j) (entry (D s2) i j)))) \<and>
   StateSpace_eq np (s1\<lparr>dt := t1\<rparr>) (s2\<lparr>dt := t2\<rparr>) = StateSpace_eq np s1 s2"
  by (simp add: StateSpace_eq_def array_equal_iff shape_def)

text \<open>
  The test's model without a sampling time and with the sampling time \<open>1/20\<close> compare
  equal; the test's model and the same model with \<open>D = [[1]]\<close> do not, with the same
  sampling time or with different ones.
\<close>

theorem StateSpace_eq_ignores_dt_witness:
  "StateSpace_eq (exact no_pinv) (test_ss None) (test_ss (Some (1/20))) \<and>
   \<not> StateSpace_eq (exact no_pinv) (test_ss None) ((test_ss None)\<lparr>D := of_rows () [[1]]\<rparr>) \<and>
   \<not> StateSpace_eq (exact no_pinv) (test_ss None)
       ((test_ss (Some (1/20)))\<lparr>D := of_rows () [[1]]\<rparr>)"
  using StateSpace_eq_ignores_dt
      [where np = "exact no_pinv" and ?s1.0 = "test_ss None" and ?t1.0 = None
         and ?s2.0 = "test_ss None" and ?t2.0 = "Some (1/20)"]
    StateSpace_eq_ignores_dt
      [where np = "exact no_pinv" and ?s1.0 = "test_ss None" and ?t1.0 = None
         and ?s2.0 = "(test_ss None)\<lparr>D := of_rows () [[1]]\<rparr>" and ?t2.0 = None]
    StateSpace_eq_ignores_dt
      [where np = "exact no_pinv" and ?s1.0 = "test_ss None" and ?t1.0 = None
         and ?s2.0 = "(test_ss None)\<lparr>D := of_rows () [[1]]\<rparr>" and ?t2.0 = "Some (1/20)"]
  by (simp add: test_ss_def shape_def)
section \<open>Parallel connection: \<open>self + other\<close>\<close>

lemma StateSpace_add_ok:
  assumes "valid self" "valid other" "shape (D self) = shape (D other)"
  shows "StateSpace_add np self other =
    (if dt self = None \<or> dt other = None \<or> dt self = dt other
     then Inr \<lparr>inputs = inputs self, outputs = outputs self,
        dt = (if dt self = None then dt other else dt self),
        A = slice_assigned np
             (slice_assigned np (np_zeros np (nrows (A self) + nrows (A other))
                                       (nrows (A self) + nrows (A other)))
                0 (nrows (A self)) 0 (nrows (A self)) (A self))
             (nrows (A self)) (nrows (A self) + nrows (A other))
             (nrows (A self)) (nrows (A self) + nrows (A other)) (A other),
        B = vstack np (B self) (B other), C = hstack np (C self) (C other),
        D = elementwise np (scalar_add np) (D self) (D other)\<rparr>
     else Inl ValueError_sampling_time)"
proof -
  from assms(3) have d: "nrows (D other) = nrows (D self)" "ncols (D other) = ncols (D self)"
    by (simp_all add: shape_def)
  note sh = valid_shapes [OF assms(1)] valid_shapes [OF assms(2)]
  from d sh have eq: "nrows (C other) = nrows (C self)" "ncols (B other) = ncols (B self)"
    by simp_all
  show ?thesis
    by (cases "dt self"; cases "dt other")
       (simp_all add: StateSpace_add_def sh eq d shape_def set_slice_exact StateSpace_init_def)
qed

text \<open>
  Claim C4, as the code has it. For two models, \<open>self + other\<close> fails with a shape
  mismatch exactly when the shapes of their \<open>D\<close> differ. When the shapes agree and the
  sampling times are compatible (one of them unset, or both equal), it returns a model
  of \<open>n1 + n2\<close> states. Its \<open>A\<close> is an array of floating-point numbers with \<open>self.A\<close> and
  \<open>other.A\<close> on the diagonal, their elements converted to floating point, and \<open>0.0\<close>
  elsewhere. Its \<open>B\<close> is \<open>self.B\<close> over \<open>other.B\<close> and its \<open>C\<close> is \<open>self.C\<close> beside
  \<open>other.C\<close>, the elements converted to the common element type of the two. Its \<open>D\<close> is
  numpy's sum of \<open>self.D\<close> and \<open>other.D\<close>, element by element.
\<close>

theorem StateSpace_add_parallel:
  assumes "valid self" and "valid other"
  shows
    "((\<exists>e. StateSpace_add np self other = Inl e \<and> is_ShapeMismatch e) \<longleftrightarrow>
        shape (D self) \<noteq> shape (D other)) \<and>
     (shape (D self) = shape (D other) \<and>
      (dt self = None \<or> dt other = None \<or> dt self = dt other) \<longrightarrow>
      (\<exists>r. StateSpace_add np self other = Inr r \<and>
         shape (A r) = (nrows (A self) + nrows (A other), nrows (A self) + nrows (A other)) \<and>
         dtype (A r) = float64 np \<and>
         (\<forall>i < nrows (A self) + nrows (A other). \<forall>j < nrows (A self) + nrows (A other).
            entry (A r) i j =
              (if i < nrows (A self) \<and> j < nrows (A self)
                 then astype np (float64 np) (entry (A self) i j)
               else if nrows (A self) \<le> i \<and> nrows (A self) \<le> j
                 then astype np (float64 np)
                        (entry (A other) (i - nrows (A self)) (j - nrows (A self)))
               else zero_f64 np)) \<and>
         shape (B r) = (nrows (A self) + nrows (A other), ncols (B self)) \<and>
         dtype (B r) = result_type np (dtype (B self)) (dtype (B other)) \<and>
         (\<forall>i < nrows (A self) + nrows (A other). \<forall>j < ncols (B self).
            entry (B r) i j =
              astype np (dtype (B r))
                (if i < nrows (A self) then entry (B self) i j
                 else entry (B other) (i - nrows (A self)) j)) \<and>
         shape (C r) = (nrows (C self), nrows (A self) + nrows (A other)) \<and>
         dtype (C r) = result_type np (dtype (C self)) (dtype (C other)) \<and>
         (\<forall>i < nrows (C self). \<forall>j < nrows (A self) + nrows (A other).
            entry (C r) i j =
              astype np (dtype (C r))
                (if j < nrows (A self) then entry (C self) i j
                 else entry (C other) i (j - nrows (A self)))) \<and>
         shape (D r) = shape (D self) \<and>
         dtype (D r) = result_type np (dtype (D self)) (dtype (D other)) \<and>
         (\<forall>i < nrows (D self). \<forall>j < ncols (D self).
            entry (D r) i j = scalar_add np (entry (D self) i j) (entry (D other) i j))))"
proof (cases "shape (D self) = shape (D other)")
  case False
  then have "StateSpace_add np self other = Inl ValueError_shapes_of_D"
    by (simp add: StateSpace_add_def)
  with False show ?thesis by simp
next
  case True
  note ok = StateSpace_add_ok [OF assms True]
  note sh = valid_shapes [OF assms(1)] valid_shapes [OF assms(2)]
  from True have d: "nrows (D other) = nrows (D self)" "ncols (D other) = ncols (D self)"
    by (simp_all add: shape_def)
  have no_mismatch: "\<not> (\<exists>e. StateSpace_add np self other = Inl e \<and> is_ShapeMismatch e)"
    by (auto simp: ok split: if_splits)
  have "\<exists>r. StateSpace_add np self other = Inr r \<and>
         shape (A r) = (nrows (A self) + nrows (A other), nrows (A self) + nrows (A other)) \<and>
         dtype (A r) = float64 np \<and>
         (\<forall>i < nrows (A self) + nrows (A other). \<forall>j < nrows (A self) + nrows (A other).
            entry (A r) i j =
              (if i < nrows (A self) \<and> j < nrows (A self)
                 then astype np (float64 np) (entry (A self) i j)
               else if nrows (A self) \<le> i \<and> nrows (A self) \<le> j
                 then astype np (float64 np)
                        (entry (A other) (i - nrows (A self)) (j - nrows (A self)))
               else zero_f64 np)) \<and>
         shape (B r) = (nrows (A self) + nrows (A other), ncols (B self)) \<and>
         dtype (B r) = result_type np (dtype (B self)) (dtype (B other)) \<and>
         (\<forall>i < nrows (A self) + nrows (A other). \<forall>j < ncols (B self).
            entry (B r) i j =
              astype np (dtype (B r))
                (if i < nrows (A self) then entry (B self) i j
                 else entry (B other) (i - nrows (A self)) j)) \<and>
         shape (C r) = (nrows (C self), nrows (A self) + nrows (A other)) \<and>
         dtype (C r) = result_type np (dtype (C self)) (dtype (C other)) \<and>
         (\<forall>i < nrows (C self). \<forall>j < nrows (A self) + nrows (A other).
            entry (C r) i j =
              astype np (dtype (C r))
                (if j < nrows (A self) then entry (C self) i j
                 else entry (C other) i (j - nrows (A self)))) \<and>
         shape (D r) = shape (D self) \<and>
         dtype (D r) = result_type np (dtype (D self)) (dtype (D other)) \<and>
         (\<forall>i < nrows (D self). \<forall>j < ncols (D self).
            entry (D r) i j = scalar_add np (entry (D self) i j) (entry (D other) i j))"
    if compat: "dt self = None \<or> dt other = None \<or> dt self = dt other"
  proof -
    from compat ok obtain r where r: "StateSpace_add np self other = Inr r"
      and rA: "A r = slice_assigned np
             (slice_assigned np (np_zeros np (nrows (A self) + nrows (A other))
                                       (nrows (A self) + nrows (A other)))
                0 (nrows (A self)) 0 (nrows (A self)) (A self))
             (nrows (A self)) (nrows (A self) + nrows (A other))
             (nrows (A self)) (nrows (A self) + nrows (A other)) (A other)"
      and rB: "B r = vstack np (B self) (B other)"
      and rC: "C r = hstack np (C self) (C other)"
      and rD: "D r = elementwise np (scalar_add np) (D self) (D other)"
      by auto
    have "shape (A r) = (nrows (A self) + nrows (A other), nrows (A self) + nrows (A other))"
      by (simp add: rA shape_def)
    moreover have "dtype (A r) = float64 np"
      by (simp add: rA)
    moreover have "\<forall>i < nrows (A self) + nrows (A other). \<forall>j < nrows (A self) + nrows (A other).
            entry (A r) i j =
              (if i < nrows (A self) \<and> j < nrows (A self)
                 then astype np (float64 np) (entry (A self) i j)
               else if nrows (A self) \<le> i \<and> nrows (A self) \<le> j
                 then astype np (float64 np)
                        (entry (A other) (i - nrows (A self)) (j - nrows (A self)))
               else zero_f64 np)"
      by (auto simp: rA slice_assigned_entry sh)
    moreover have "shape (B r) = (nrows (A self) + nrows (A other), ncols (B self))"
      by (simp add: rB shape_def sh)
    moreover have "dtype (B r) = result_type np (dtype (B self)) (dtype (B other))"
      by (simp add: rB)
    moreover have "\<forall>i < nrows (A self) + nrows (A other). \<forall>j < ncols (B self).
            entry (B r) i j =
              astype np (dtype (B r))
                (if i < nrows (A self) then entry (B self) i j
                 else entry (B other) (i - nrows (A self)) j)"
      by (simp add: rB sh)
    moreover have "shape (C r) = (nrows (C self), nrows (A self) + nrows (A other))"
      by (simp add: rC shape_def sh)
    moreover have "dtype (C r) = result_type np (dtype (C self)) (dtype (C other))"
      by (simp add: rC)
    moreover have "\<forall>i < nrows (C self). \<forall>j < nrows (A self) + nrows (A other).
            entry (C r) i j =
              astype np (dtype (C r))
                (if j < nrows (A self) then entry (C self) i j
                 else entry (C other) i (j - nrows (A self)))"
      by (simp add: rC sh)
    moreover have "shape (D r) = shape (D self)"
      by (simp add: rD shape_def d)
    moreover have "dtype (D r) = result_type np (dtype (D self)) (dtype (D other))"
      by (simp add: rD)
    moreover have "\<forall>i < nrows (D self). \<forall>j < ncols (D self).
            entry (D r) i j = scalar_add np (entry (D self) i j) (entry (D other) i j)"
      by (simp add: rD elementwise_entry d)
    ultimately show ?thesis using r by blast
  qed
  with True no_mismatch show ?thesis by blast
qed

text \<open>
  The sum of the test's model with itself, as in \<^verbatim>\<open>test___add__\<close>, in exact arithmetic:
  four states, the two copies of \<open>A\<close> on the diagonal.
\<close>

theorem StateSpace_add_parallel_witness:
  "\<exists>r. StateSpace_add (exact no_pinv) (test_ss None) (test_ss None) = Inr r \<and>
       to_rows (A r) = [[0, 1, 0, 0], [-4, -1/2, 0, 0], [0, 0, 0, 1], [0, 0, -4, -1/2]] \<and>
       to_rows (B r) = [[0], [1], [0], [1]] \<and> to_rows (C r) = [[4, 0, 4, 0]] \<and>
       to_rows (D r) = [[0]]"
proof -
  have v: "valid (test_ss None)" by simp
  have h: "shape (D (test_ss None)) = shape (D (test_ss None)) \<and>
      (dt (test_ss None) = None \<or> dt (test_ss None) = None \<or> dt (test_ss None) = dt (test_ss None))"
    by (simp add: test_ss_def)
  have n: "nrows (A (test_ss None)) = 2" "ncols (B (test_ss None)) = 1"
    "nrows (C (test_ss None)) = 1" "shape (D (test_ss None)) = (1, 1)"
    "nrows (D (test_ss None)) = 1" "ncols (D (test_ss None)) = 1"
    by (simp_all add: test_ss_def shape_def)
  from StateSpace_add_parallel [OF v v, of "exact no_pinv"] h
  obtain r where r: "StateSpace_add (exact no_pinv) (test_ss None) (test_ss None) = Inr r"
    and a: "shape (A r) = (4, 4)"
    and ae: "\<forall>i < 4. \<forall>j < 4.
            entry (A r) i j =
              (if i < 2 \<and> j < 2 then entry (A (test_ss None)) i j
               else if 2 \<le> i \<and> 2 \<le> j then entry (A (test_ss None)) (i - 2) (j - 2)
               else 0)"
    and b: "shape (B r) = (4, 1)"
    and be: "\<forall>i < 4. \<forall>j < 1.
            entry (B r) i j =
              (if i < 2 then entry (B (test_ss None)) i j
               else entry (B (test_ss None)) (i - 2) j)"
    and c: "shape (C r) = (1, 4)"
    and ce: "\<forall>i < 1. \<forall>j < 4.
            entry (C r) i j =
              (if j < 2 then entry (C (test_ss None)) i j
               else entry (C (test_ss None)) i (j - 2))"
    and d: "shape (D r) = (1, 1)"
    and de: "\<forall>i < 1. \<forall>j < 1.
            entry (D r) i j = entry (D (test_ss None)) i j + entry (D (test_ss None)) i j"
    unfolding n by auto
  from a ae have "to_rows (A r) = [[0, 1, 0, 0], [-4, -1/2, 0, 0], [0, 0, 0, 1], [0, 0, -4, -1/2]]"
    by (simp add: to_rows_def shape_def test_ss_def upt_rec [of _ "numeral k" for k])
  moreover from b be have "to_rows (B r) = [[0], [1], [0], [1]]"
    by (simp add: to_rows_def shape_def test_ss_def upt_rec [of _ "numeral k" for k])
  moreover from c ce have "to_rows (C r) = [[4, 0, 4, 0]]"
    by (simp add: to_rows_def shape_def test_ss_def upt_rec [of _ "numeral k" for k])
  moreover from d de have "to_rows (D r) = [[0]]"
    by (simp add: to_rows_def shape_def test_ss_def)
  ultimately show ?thesis using r by blast
qed

text \<open>
  The claim as first stated promises a model whenever the shapes of \<open>D\<close> agree. Two
  copies of the test's model with the sampling times 1 and 2 have the same shapes, and
  their sum is the error about the sampling times.
\<close>

theorem StateSpace_add_parallel_counterexample:
  "valid (test_ss (Some 1)) \<and> valid (test_ss (Some 2)) \<and>
   shape (D (test_ss (Some 1))) = shape (D (test_ss (Some 2))) \<and>
   StateSpace_add (exact no_pinv) (test_ss (Some 1)) (test_ss (Some 2))
     = Inl ValueError_sampling_time"
  by (simp add: StateSpace_add_def test_ss_def shape_def valid_def)

text \<open>
  In exact arithmetic no conversion changes an element, and the result is the claim's: the
  two matrices \<open>A\<close> on the diagonal, \<open>B\<close> stacked, \<open>C\<close> side by side and the sum of the
  two \<open>D\<close>. In numpy the conversions and the sum are those of the element types: an \<open>A\<close>
  of 64-bit integers is rounded to floating point (\<open>2\<^sup>5\<^sup>3 + 1\<close> becomes \<open>2\<^sup>5\<^sup>3\<close>), and a sum
  of 64-bit integers wraps around.
\<close>

lemma StateSpace_add_parallel_exact:
  assumes "valid self" and "valid other" and "shape (D self) = shape (D other)"
    and "dt self = None \<or> dt other = None \<or> dt self = dt other"
  shows "\<exists>r. StateSpace_add (exact p) self other = Inr r \<and>
     (\<forall>i < nrows (A self) + nrows (A other). \<forall>j < nrows (A self) + nrows (A other).
        entry (A r) i j =
          (if i < nrows (A self) \<and> j < nrows (A self) then entry (A self) i j
           else if nrows (A self) \<le> i \<and> nrows (A self) \<le> j
             then entry (A other) (i - nrows (A self)) (j - nrows (A self))
           else 0)) \<and>
     (\<forall>i < nrows (A self) + nrows (A other). \<forall>j < ncols (B self).
        entry (B r) i j =
          (if i < nrows (A self) then entry (B self) i j
           else entry (B other) (i - nrows (A self)) j)) \<and>
     (\<forall>i < nrows (C self). \<forall>j < nrows (A self) + nrows (A other).
        entry (C r) i j =
          (if j < nrows (A self) then entry (C self) i j
           else entry (C other) i (j - nrows (A self)))) \<and>
     (\<forall>i < nrows (D self). \<forall>j < ncols (D self).
        entry (D r) i j = entry (D self) i j + entry (D other) i j)"
proof -
  note ok = StateSpace_add_ok [OF assms(1,2,3), of "exact p"]
  note sh = valid_shapes [OF assms(1)] valid_shapes [OF assms(2)]
  from assms(3) have d: "nrows (D other) = nrows (D self)" "ncols (D other) = ncols (D self)"
    by (simp_all add: shape_def)
  from assms(4) ok obtain r where r: "StateSpace_add (exact p) self other = Inr r"
    and rA: "A r = slice_assigned (exact p)
           (slice_assigned (exact p) (np_zeros (exact p) (nrows (A self) + nrows (A other))
                                     (nrows (A self) + nrows (A other)))
              0 (nrows (A self)) 0 (nrows (A self)) (A self))
           (nrows (A self)) (nrows (A self) + nrows (A other))
           (nrows (A self)) (nrows (A self) + nrows (A other)) (A other)"
    and rB: "B r = vstack (exact p) (B self) (B other)"
    and rC: "C r = hstack (exact p) (C self) (C other)"
    and rD: "D r = elementwise (exact p) (scalar_add (exact p)) (D self) (D other)"
    by auto
  have "\<forall>i < nrows (A self) + nrows (A other). \<forall>j < nrows (A self) + nrows (A other).
        entry (A r) i j =
          (if i < nrows (A self) \<and> j < nrows (A self) then entry (A self) i j
           else if nrows (A self) \<le> i \<and> nrows (A self) \<le> j
             then entry (A other) (i - nrows (A self)) (j - nrows (A self))
           else 0)"
    by (auto simp: rA slice_assigned_entry sh)
  moreover have "\<forall>i < nrows (A self) + nrows (A other). \<forall>j < ncols (B self).
        entry (B r) i j =
          (if i < nrows (A self) then entry (B self) i j
           else entry (B other) (i - nrows (A self)) j)"
    by (simp add: rB sh)
  moreover have "\<forall>i < nrows (C self). \<forall>j < nrows (A self) + nrows (A other).
        entry (C r) i j =
          (if j < nrows (A self) then entry (C self) i j
           else entry (C other) i (j - nrows (A self)))"
    by (simp add: rC sh)
  moreover have "\<forall>i < nrows (D self). \<forall>j < ncols (D self).
        entry (D r) i j = entry (D self) i j + entry (D other) i j"
    by (simp add: rD elementwise_entry d)
  ultimately show ?thesis using r by blast
qed

section \<open>Series connection: \<open>self * other\<close>\<close>

lemma StateSpace_mul_ss_ok:
  assumes "valid self" "valid other" "outputs self = inputs other"
    "inputs self = outputs other"
  shows "StateSpace_mul_ss np self other =
    (if dt self = None \<or> dt other = None \<or> dt self = dt other
     then Inr \<lparr>inputs = outputs self, outputs = inputs other,
        dt = (if dt self = None then dt other else dt self),
        A = slice_assigned np
             (slice_assigned np
               (slice_assigned np (np_zeros np (nrows (A self) + nrows (A other))
                                         (nrows (A self) + nrows (A other)))
                  0 (nrows (A self)) 0 (nrows (A self)) (A self))
               (nrows (A self)) (nrows (A self) + nrows (A other))
               (nrows (A self)) (nrows (A self) + nrows (A other)) (A other))
             0 (nrows (A self)) (nrows (A self)) (nrows (A self) + nrows (A other))
             (dot np (B self) (C other)),
        B = mat_T (hstack np (dot np (D self) (C other)) (C self)),
        C = mat_T (vstack np (B other) (dot np (B self) (D other))),
        D = dot np (D self) (D other)\<rparr>
     else Inl ValueError_sampling_time)"
proof -
  note sh = valid_shapes [OF assms(1)] valid_shapes [OF assms(2)]
  from assms(3,4) sh have eq: "nrows (C other) = ncols (B self)" "ncols (B other) = nrows (C self)"
    by simp_all
  show ?thesis
    by (cases "dt self"; cases "dt other")
       (simp_all add: StateSpace_mul_ss_def sh eq shape_def set_slice_exact StateSpace_init_def
          add.commute)
qed

section \<open>Sampling times in \<open>+\<close> and \<open>*\<close>\<close>

text \<open>
  Claim C5, as the code has it. The shape check of each operation runs before the
  sampling times are looked at. For two models that pass it (equal shapes of \<open>D\<close> for
  \<open>+\<close>; \<open>self.outputs = other.inputs\<close> for \<open>*\<close>), two set and different sampling times
  make the operation fail with the sampling-time error. When exactly one operand has a
  sampling time the result carries it, and when both have the same one the result
  carries it too: for \<open>+\<close> always, for \<open>*\<close> when the product can be formed
  (\<open>self.inputs = other.outputs\<close>).
\<close>

theorem sampling_time_reconciliation:
  assumes "valid self" and "valid other"
  shows
    "(shape (D self) = shape (D other) \<longrightarrow>
        (dt self = None \<and> dt other \<noteq> None \<longrightarrow>
           (\<exists>r. StateSpace_add np self other = Inr r \<and> dt r = dt other)) \<and>
        (dt self \<noteq> None \<and> dt other = None \<longrightarrow>
           (\<exists>r. StateSpace_add np self other = Inr r \<and> dt r = dt self)) \<and>
        (dt self \<noteq> None \<and> dt other = dt self \<longrightarrow>
           (\<exists>r. StateSpace_add np self other = Inr r \<and> dt r = dt self)) \<and>
        (dt self \<noteq> None \<and> dt other \<noteq> None \<and> dt self \<noteq> dt other \<longrightarrow>
           StateSpace_add np self other = Inl ValueError_sampling_time)) \<and>
     (outputs self = inputs other \<longrightarrow>
        (dt self \<noteq> None \<and> dt other \<noteq> None \<and> dt self \<noteq> dt other \<longrightarrow>
           StateSpace_mul np tf2ss self (Model other) = Inl ValueError_sampling_time) \<and>
        (inputs self = outputs other \<longrightarrow>
           (dt self = None \<and> dt other \<noteq> None \<longrightarrow>
              (\<exists>r. StateSpace_mul np tf2ss self (Model other) = Inr r \<and> dt r = dt other)) \<and>
           (dt self \<noteq> None \<and> dt other = None \<longrightarrow>
              (\<exists>r. StateSpace_mul np tf2ss self (Model other) = Inr r \<and> dt r = dt self)) \<and>
           (dt self \<noteq> None \<and> dt other = dt self \<longrightarrow>
              (\<exists>r. StateSpace_mul np tf2ss self (Model other) = Inr r \<and> dt r = dt self))))"
proof -
  have add: "shape (D self) = shape (D other) \<Longrightarrow> StateSpace_add np self other =
    (if dt self = None \<or> dt other = None \<or> dt self = dt other
     then Inr \<lparr>inputs = inputs self, outputs = outputs self,
        dt = (if dt self = None then dt other else dt self),
        A = slice_assigned np
             (slice_assigned np (np_zeros np (nrows (A self) + nrows (A other))
                                       (nrows (A self) + nrows (A other)))
                0 (nrows (A self)) 0 (nrows (A self)) (A self))
             (nrows (A self)) (nrows (A self) + nrows (A other))
             (nrows (A self)) (nrows (A self) + nrows (A other)) (A other),
        B = vstack np (B self) (B other), C = hstack np (C self) (C other),
        D = elementwise np (scalar_add np) (D self) (D other)\<rparr>
     else Inl ValueError_sampling_time)"
    by (rule StateSpace_add_ok [OF assms])
  have mul_fail: "outputs self = inputs other \<Longrightarrow> dt self \<noteq> None \<Longrightarrow> dt other \<noteq> None
      \<Longrightarrow> dt self \<noteq> dt other \<Longrightarrow> StateSpace_mul_ss np self other = Inl ValueError_sampling_time"
    by (auto simp: StateSpace_mul_ss_def)
  have mul: "StateSpace_mul np tf2ss self (Model other) = StateSpace_mul_ss np self other"
    by (simp add: StateSpace_mul_def)
  note mul_ok = StateSpace_mul_ss_ok [OF assms]
  show ?thesis
    apply (intro conjI impI)
    subgoal by (simp add: add)
    subgoal by (simp add: add)
    subgoal by (simp add: add)
    subgoal by (simp add: add)
    subgoal by (simp add: mul mul_fail)
    subgoal by (simp add: mul mul_ok)
    subgoal by (simp add: mul mul_ok)
    subgoal by (simp add: mul mul_ok)
    done
qed


theorem sampling_time_reconciliation_witness:
  "(\<exists>r. StateSpace_add (exact no_pinv) (test_ss None) (test_ss (Some (1/20))) = Inr r \<and> dt r = Some (1/20)) \<and>
   (\<exists>r. StateSpace_add (exact no_pinv) (test_ss (Some (1/20))) (test_ss None) = Inr r \<and> dt r = Some (1/20)) \<and>
   StateSpace_add (exact no_pinv) (test_ss (Some 1)) (test_ss (Some 2)) = Inl ValueError_sampling_time \<and>
   (\<exists>r. StateSpace_mul (exact no_pinv) (\<lambda>g::unit. Inl TypeError) (test_ss None) (Model (test_ss (Some (1/20))))
         = Inr r \<and> dt r = Some (1/20)) \<and>
   StateSpace_mul (exact no_pinv) (\<lambda>g::unit. Inl TypeError) (test_ss (Some 1)) (Model (test_ss (Some 2)))
     = Inl ValueError_sampling_time"
proof -
  have d: "shape (D (test_ss s)) = shape (D (test_ss t))"
    "outputs (test_ss s) = inputs (test_ss t)" "inputs (test_ss s) = outputs (test_ss t)"
    "dt (test_ss t) = t" for s t
    by (simp_all add: test_ss_def)
  show ?thesis
    using sampling_time_reconciliation
        [OF valid_test_ss valid_test_ss, of None "Some (1/20)" "exact no_pinv"
           "\<lambda>g::unit. Inl TypeError"]
      sampling_time_reconciliation
        [OF valid_test_ss valid_test_ss, of "Some (1/20)" None "exact no_pinv"
           "\<lambda>g::unit. Inl TypeError"]
      sampling_time_reconciliation
        [OF valid_test_ss valid_test_ss, of "Some 1" "Some 2" "exact no_pinv"
           "\<lambda>g::unit. Inl TypeError"]
    by (simp add: d)
qed

text \<open>
  The claim as first stated names the sampling-time error for every two operands with
  different sampling times, and a result for every two operands of which one has a
  sampling time. The test's model and a model with two outputs have \<open>D\<close> of different
  shapes, and their sum fails at the shape check, whatever the sampling times. A model
  with two inputs times a model with one output passes the check of \<open>*\<close>
  (\<open>self.outputs = other.inputs\<close>), but the product \<open>self.B * other.C\<close> cannot be formed, and
  there is no result to carry the sampling time.
\<close>

theorem sampling_time_reconciliation_counterexample:
  "valid (test_ss (Some 1)) \<and> valid (simo (Some 2)) \<and>
   dt (test_ss (Some 1)) = Some 1 \<and> dt (simo (Some 2)) = Some 2 \<and>
   StateSpace_add (exact no_pinv) (test_ss (Some 1)) (simo (Some 2)) = Inl ValueError_shapes_of_D \<and>
   valid (miso None) \<and> valid (siso 5 6 7 8 (Some 1)) \<and>
   dt (miso None) = None \<and> dt (siso 5 6 7 8 (Some 1)) = Some 1 \<and>
   outputs (miso None) = inputs (siso 5 6 7 8 (Some 1)) \<and>
   StateSpace_mul (exact no_pinv) (\<lambda>g::unit. Inl TypeError) (miso None) (Model (siso 5 6 7 8 (Some 1)))
     = Inl ValueError_not_aligned"
  by (simp add: StateSpace_add_def StateSpace_mul_def StateSpace_mul_ss_def test_ss_def
      simo_def miso_def siso_def shape_def valid_def set_slice_def matmul_def Let_def)

text \<open>
  Claim C2 says that \<open>self * other\<close> fails exactly when \<open>self.inputs \<noteq> other.outputs\<close>
  and otherwise returns the model with \<open>B = stack(other.B; self.B * other.D)\<close> and
  \<open>C = concat(self.D * other.C, self.C)\<close>. The code checks \<open>self.outputs \<noteq> other.inputs\<close>
  instead, and it hands the constructor the transpose of the computed \<open>C\<close> as \<open>B\<close> and the
  transpose of the computed \<open>B\<close> as \<open>C\<close>. In exact arithmetic, which is numpy's on these
  small integers: for \<open>self = (1, 2, 3, 4)\<close> and
  \<open>other = (5, 6, 7, 8)\<close>, each with one state, one input and one output, the claim's
  \<open>B\<close> is \<open>[[6], [16]]\<close> and its \<open>C\<close> is \<open>[[28, 3]]\<close>; the code returns \<open>B = [[28], [3]]\<close>
  and \<open>C = [[6, 16]]\<close>. For \<open>self\<close> with one input and two outputs and \<open>other\<close> with one
  input and one output, \<open>self.inputs = other.outputs\<close> and the code fails.
\<close>

theorem StateSpace_mul_series_code:
  "(\<exists>r. StateSpace_mul (exact no_pinv) tf2ss (siso 1 2 3 4 None) (Model (siso 5 6 7 8 None)) = Inr r \<and>
        to_rows (A r) = [[1, 14], [0, 5]] \<and> to_rows (B r) = [[28], [3]] \<and>
        to_rows (C r) = [[6, 16]] \<and> to_rows (D r) = [[32]]) \<and>
   inputs (simo None) = outputs (siso 5 6 7 8 None) \<and>
   StateSpace_mul (exact no_pinv) tf2ss (simo None) (Model (siso 5 6 7 8 None)) = Inl ValueError_outputs_inputs"
  by (simp add: StateSpace_mul_def StateSpace_mul_ss_def siso_def simo_def set_slice_def
      matmul_def dot_def mm_def np_zeros_def np_concatenate0_def np_concatenate1_def vstack_def
      hstack_def mat_T_def StateSpace_init_def shape_def to_rows_def slice_assigned_def
      of_rows_def Let_def)

text \<open>
  Claim C8 says that \<open>self * g\<close> for a number \<open>g\<close> converts \<open>g\<close> to a model and returns
  the series connection. The conversion calls \<^verbatim>\<open>np.zeros(outputs, 1)\<close>, where the shape
  \<^verbatim>\<open>(outputs, 1)\<close> was meant, and numpy raises \<^verbatim>\<open>TypeError\<close>: the product of any model and
  any number is this error.
\<close>

theorem StateSpace_mul_number_code:
  "StateSpace_mul np tf2ss self (Number g) = Inl TypeError"
  by (simp add: StateSpace_mul_def convert_to_ss_def np_zeros_dtype_def)

section \<open>The closed loop\<close>

lemma np_linalg_inv_Inr:
  assumes "np_linalg_inv np M = Inr G"
  shows "nrows M = ncols M" "nrows G = nrows M" "ncols G = nrows M"
  using assms by (auto simp: np_linalg_inv_def split: if_splits option.splits)

lemma np_linalg_inv_Inl: "np_linalg_inv np M = Inl e \<Longrightarrow> e = LinAlgError"
  by (auto simp: np_linalg_inv_def split: if_splits option.splits)

lemma feedback_F_ok:
  assumes "valid self" "valid k" "inputs k = outputs self" "outputs k = inputs self"
  shows "feedback_F np self k sign =
    Inr (elementwise np (scalar_sub np) (np_eye np (inputs self))
           (dot np (smul np sign (D k)) (D self)))"
proof -
  note sh = valid_shapes [OF assms(1)] valid_shapes [OF assms(2)]
  from assms(3,4) sh have eq: "ncols (B k) = nrows (C self)" "nrows (C k) = ncols (B self)"
    by simp_all
  show ?thesis by (simp add: feedback_F_def sh eq)
qed

lemma feedback_matrices_ok:
  assumes "valid self" "valid k" "inputs k = outputs self" "outputs k = inputs self"
    and F: "F = elementwise np (scalar_sub np) (np_eye np (inputs self))
                  (dot np (smul np sign (D k)) (D self))"
  shows "np_linalg_inv np F = Inl e \<Longrightarrow> feedback_matrices np self k sign = Inl e"
    and "np_linalg_inv np F = Inr Fi \<Longrightarrow>
      \<exists>a b c d. feedback_matrices np self k sign = Inr (a, b, c, d) \<and>
      nrows a = nrows (A self) + nrows (A k) \<and> ncols a = nrows (A self) + nrows (A k) \<and>
      nrows b = nrows (A self) + nrows (A k) \<and> ncols b = ncols (B self) \<and>
      nrows c = nrows (C self) \<and> ncols c = nrows (A self) + nrows (A k) \<and>
      nrows d = nrows (C self) \<and> ncols d = ncols (B self)"
proof -
  note sh = valid_shapes [OF assms(1)] valid_shapes [OF assms(2)]
  from assms(3,4) sh have eq: "ncols (B k) = nrows (C self)" "nrows (C k) = ncols (B self)"
    by simp_all
  have Fsh: "nrows F = ncols (B self)" "ncols F = ncols (B self)"
    by (simp_all add: F sh eq)
  note Fok = feedback_F_ok [OF assms(1-4), of np sign, folded F]
  show "np_linalg_inv np F = Inl e \<Longrightarrow> feedback_matrices np self k sign = Inl e"
    by (simp add: feedback_matrices_def Fok matrix_I_def Fsh)
  assume Fi: "np_linalg_inv np F = Inr Fi"
  have I: "matrix_I np F = Inr Fi"
    by (simp add: matrix_I_def Fsh Fi)
  from np_linalg_inv_Inr(2,3) [OF Fi] Fsh
  have Fish: "nrows Fi = ncols (B self)" "ncols Fi = ncols (B self)" by simp_all
  show "\<exists>a b c d. feedback_matrices np self k sign = Inr (a, b, c, d) \<and>
      nrows a = nrows (A self) + nrows (A k) \<and> ncols a = nrows (A self) + nrows (A k) \<and>
      nrows b = nrows (A self) + nrows (A k) \<and> ncols b = ncols (B self) \<and>
      nrows c = nrows (C self) \<and> ncols c = nrows (A self) + nrows (A k) \<and>
      nrows d = nrows (C self) \<and> ncols d = ncols (B self)"
    by (simp add: feedback_matrices_def Fok I Fsh Fish sh eq Let_def)
qed

lemma feedback_ok:
  assumes "valid self" "valid k" "inputs k = outputs self" "outputs k = inputs self"
    and F: "F = elementwise np (scalar_sub np) (np_eye np (inputs self))
                  (dot np (smul np sign (D k)) (D self))"
  shows "np_linalg_inv np F = Inl e \<Longrightarrow> feedback np self k sign = Inl e"
    and "np_linalg_inv np F = Inr Fi \<Longrightarrow> \<exists>r. feedback np self k sign = Inr r \<and>
      shape (A r) = (nrows (A self) + nrows (A k), nrows (A self) + nrows (A k))"
proof -
  show "np_linalg_inv np F = Inl e \<Longrightarrow> feedback np self k sign = Inl e"
    using feedback_matrices_ok(1) [OF assms] by (simp add: feedback_def)
  assume "np_linalg_inv np F = Inr Fi"
  from feedback_matrices_ok(2) [OF assms this]
  obtain a b c d where m: "feedback_matrices np self k sign = Inr (a, b, c, d)"
    and sh: "nrows a = nrows (A self) + nrows (A k)" "ncols a = nrows (A self) + nrows (A k)"
      "nrows b = nrows (A self) + nrows (A k)" "ncols b = ncols (B self)"
      "nrows c = nrows (C self)" "ncols c = nrows (A self) + nrows (A k)"
      "nrows d = nrows (C self)" "ncols d = ncols (B self)"
    by blast
  show "\<exists>r. feedback np self k sign = Inr r \<and>
      shape (A r) = (nrows (A self) + nrows (A k), nrows (A self) + nrows (A k))"
    by (simp add: feedback_def m StateSpace_init_def sh shape_def)
qed

text \<open>
  Claim C3, as the code has it. For a model \<open>self\<close> and a compensator \<open>k\<close> whose
  dimensions fit the loop (\<open>k\<close> has as many inputs as \<open>self\<close> has outputs and as many
  outputs as \<open>self\<close> has inputs) and any sign, \<open>feedback\<close> computes
  \<open>F = I - sign k.D self.D\<close> with numpy's product and difference, a square matrix of the
  size of \<open>self\<close>'s input count, and hands it to numpy's inversion. It fails exactly when
  that inversion fails, with the inversion's error for a singular matrix, and otherwise
  it returns a model whose state order is \<open>n_self + n_k\<close>.
\<close>

theorem feedback_closure:
  assumes "valid self" and "valid k"
    and "inputs k = outputs self" and "outputs k = inputs self"
  shows "\<exists>F. feedback_F np self k sign = Inr F \<and>
     shape F = (inputs self, inputs self) \<and>
     (\<forall>i < inputs self. \<forall>j < inputs self.
        entry F i j =
          scalar_sub np (if i = j then one_f64 np else zero_f64 np)
            (entry (dot np (smul np sign (D k)) (D self)) i j)) \<and>
     (\<forall>e. feedback np self k sign = Inl e \<longleftrightarrow>
          e = LinAlgError \<and> np_linalg_inv np F = Inl LinAlgError) \<and>
     ((\<exists>r. feedback np self k sign = Inr r \<and>
           shape (A r) = (nrows (A self) + nrows (A k), nrows (A self) + nrows (A k))) \<longleftrightarrow>
        (\<exists>Fi. np_linalg_inv np F = Inr Fi))"
proof -
  define F where
    "F = elementwise np (scalar_sub np) (np_eye np (inputs self))
           (dot np (smul np sign (D k)) (D self))"
  note sh = valid_shapes [OF assms(1)] valid_shapes [OF assms(2)]
  from assms(3,4) sh have eq: "ncols (B k) = nrows (C self)" "nrows (C k) = ncols (B self)"
    by simp_all
  have 1: "feedback_F np self k sign = Inr F"
    unfolding F_def by (rule feedback_F_ok [OF assms])
  have 2: "shape F = (inputs self, inputs self)"
    by (simp add: F_def shape_def sh eq)
  have 3: "\<forall>i < inputs self. \<forall>j < inputs self.
        entry F i j =
          scalar_sub np (if i = j then one_f64 np else zero_f64 np)
            (entry (dot np (smul np sign (D k)) (D self)) i j)"
    by (simp add: F_def elementwise_entry sh eq)
  note ok = feedback_ok [OF assms F_def]
  have 4: "feedback np self k sign = Inl e \<longleftrightarrow>
          e = LinAlgError \<and> np_linalg_inv np F = Inl LinAlgError" for e
  proof (cases "np_linalg_inv np F")
    case (Inl e')
    with np_linalg_inv_Inl [OF Inl] ok(1) [OF Inl] show ?thesis by auto
  next
    case (Inr Fi)
    with ok(2) [OF Inr] show ?thesis by auto
  qed
  have 5: "(\<exists>r. feedback np self k sign = Inr r \<and>
           shape (A r) = (nrows (A self) + nrows (A k), nrows (A self) + nrows (A k))) \<longleftrightarrow>
        (\<exists>Fi. np_linalg_inv np F = Inr Fi)"
  proof (cases "np_linalg_inv np F")
    case (Inl e')
    with ok(1) [OF Inl] show ?thesis by auto
  next
    case (Inr Fi)
    with ok(2) [OF Inr] show ?thesis by auto
  qed
  from 1 2 3 4 5 show ?thesis by blast
qed

text \<open>
  Unity feedback around a block of gain 1, in exact arithmetic: with \<open>sign = 1\<close> the
  matrix \<open>F\<close> is \<open>0\<close> and the loop has no solution; with \<open>sign = - 1\<close> it is \<open>2\<close> and the
  closed loop has the two states of \<open>self\<close> and \<open>k\<close>.
\<close>

theorem feedback_closure_witness:
  "feedback (exact no_pinv) (siso 1 1 1 1 None) (siso 0 0 0 1 None) 1 = Inl LinAlgError \<and>
   (\<exists>r. feedback (exact no_pinv) (siso 1 1 1 1 None) (siso 0 0 0 1 None) (- 1) = Inr r \<and>
        shape (A r) = (2, 2))"
proof -
  have io: "inputs (siso 0 0 0 1 None) = outputs (siso 1 1 1 1 None)"
    "outputs (siso 0 0 0 1 None) = inputs (siso 1 1 1 1 None)"
    by (simp_all add: siso_def)
  have n: "inputs (siso a b c d t) = 1" "outputs (siso a b c d t) = 1"
    "nrows (A (siso a b c d t)) = 1" for a b c d t
    by (simp_all add: siso_def)
  have *: "(s = 1 \<longrightarrow>
        feedback (exact no_pinv) (siso 1 1 1 1 None) (siso 0 0 0 1 None) s = Inl LinAlgError) \<and>
     (s \<noteq> 1 \<longrightarrow>
        (\<exists>r. feedback (exact no_pinv) (siso 1 1 1 1 None) (siso 0 0 0 1 None) s = Inr r \<and>
           shape (A r) = (2, 2)))" for s
  proof -
    let ?self = "siso 1 1 1 1 None" and ?k = "siso 0 0 0 1 None"
    from feedback_closure [OF valid_siso valid_siso io, of "exact no_pinv" s]
    obtain F where sh0: "shape F = (inputs ?self, inputs ?self)"
      and e0: "\<forall>i < inputs ?self. \<forall>j < inputs ?self.
        entry F i j =
          scalar_sub (exact no_pinv)
            (if i = j then one_f64 (exact no_pinv) else zero_f64 (exact no_pinv))
            (entry (dot (exact no_pinv) (smul (exact no_pinv) s (D ?k)) (D ?self)) i j)"
      and z: "\<forall>e. feedback (exact no_pinv) ?self ?k s = Inl e \<longleftrightarrow>
          e = LinAlgError \<and> np_linalg_inv (exact no_pinv) F = Inl LinAlgError"
      and nz0: "(\<exists>r. feedback (exact no_pinv) ?self ?k s = Inr r \<and>
           shape (A r) = (nrows (A ?self) + nrows (A ?k), nrows (A ?self) + nrows (A ?k))) \<longleftrightarrow>
         (\<exists>Fi. np_linalg_inv (exact no_pinv) F = Inr Fi)"
      by blast
    from sh0 have sh: "shape F = (1, 1)" by (simp add: n)
    from e0 have e: "entry F 0 0 = 1 - real_of_int s"
      by (simp add: n siso_def dot_def mm_def)
    from nz0 have nz: "(\<exists>r. feedback (exact no_pinv) ?self ?k s = Inr r \<and>
           shape (A r) = (2, 2)) \<longleftrightarrow> (\<exists>Fi. np_linalg_inv (exact no_pinv) F = Inr Fi)"
      by (simp add: n numeral_2_eq_2)
    from sh have "np_linalg_inv (exact no_pinv) F = Inl LinAlgError \<longleftrightarrow> entry F 0 0 = 0"
      by (intro exact_inv_1x1) (simp_all add: shape_def)
    with e have s: "np_linalg_inv (exact no_pinv) F = Inl LinAlgError \<longleftrightarrow> s = 1" by auto
    show ?thesis
    proof (cases "s = 1")
      case True
      with s z show ?thesis by simp
    next
      case False
      with s np_linalg_inv_Inl [of "exact no_pinv" F]
      have "\<exists>Fi. np_linalg_inv (exact no_pinv) F = Inr Fi"
        by (cases "np_linalg_inv (exact no_pinv) F") auto
      with nz False show ?thesis by simp
    qed
  qed
  from * [of 1] * [of "- 1"] show ?thesis by simp
qed

text \<open>
  In exact arithmetic the inversion fails exactly on the matrices without an inverse, and
  the claim's words hold for the loops that fit: \<open>feedback\<close> fails exactly when \<open>F\<close> is
  not invertible. numpy's inversion works in floating point, where the two differ. The
  singular \<open>F = [[3, 3], [5, 5]]\<close> (from \<open>k.D = [[-2, -3], [-5, -4]]\<close>, \<open>self.D\<close> the
  identity and \<open>sign = 1\<close>) is a case: the second pivot of its factorisation is computed
  as \<open>-2\<^sup>-\<^sup>5\<^sup>1\<close>, not as \<open>0\<close>, numpy reports no singular matrix, and \<open>feedback\<close> returns a
  model.
\<close>

lemma feedback_closure_exact:
  assumes "valid self" and "valid k"
    and "inputs k = outputs self" and "outputs k = inputs self"
  shows "\<exists>F. feedback_F (exact p) self k sign = Inr F \<and>
     (feedback (exact p) self k sign = Inl LinAlgError \<longleftrightarrow> \<not> invertible F) \<and>
     ((\<exists>r. feedback (exact p) self k sign = Inr r) \<longleftrightarrow> invertible F)"
proof -
  define F where
    "F = elementwise (exact p) (scalar_sub (exact p)) (np_eye (exact p) (inputs self))
           (dot (exact p) (smul (exact p) sign (D k)) (D self))"
  note sh = valid_shapes [OF assms(1)] valid_shapes [OF assms(2)]
  from assms(3,4) sh have eq: "ncols (B k) = nrows (C self)" "nrows (C k) = ncols (B self)"
    by simp_all
  have sq: "nrows F = ncols F"
    by (simp add: F_def sh eq)
  have 1: "feedback_F (exact p) self k sign = Inr F"
    unfolding F_def by (rule feedback_F_ok [OF assms])
  note ok = feedback_ok [OF assms F_def]
  show ?thesis
  proof (cases "np_linalg_inv (exact p) F")
    case (Inl e)
    from np_linalg_inv_Inl [OF Inl] Inl have s: "np_linalg_inv (exact p) F = Inl LinAlgError"
      by simp
    with exact_inv_singular [OF sq, of p] have "\<not> invertible F" by simp
    with ok(1) [OF s] 1 show ?thesis by auto
  next
    case (Inr Fi)
    with exact_inv_iff [OF sq, of p] have "invertible F" by auto
    with ok(2) [OF Inr] 1 show ?thesis by auto
  qed
qed

text \<open>
  The claim as first stated speaks of every \<open>self\<close> and \<open>k\<close>. With the test's model and a
  compensator of two inputs, \<open>k.D\<close> is \<open>1 \<times> 2\<close> and \<open>self.D\<close> is \<open>1 \<times> 1\<close>: the product in
  line 134 raises numpy's \<^verbatim>\<open>ValueError\<close>, which is neither the error of a singular loop
  nor a model. With a one-input, one-output \<open>self\<close> and a compensator of one input and two
  outputs, numpy broadcasts \<^verbatim>\<open>np.eye(1)\<close> against the \<open>2 \<times> 1\<close> product: \<open>F\<close> is \<open>2 \<times> 1\<close>,
  not square and so not invertible, \<^verbatim>\<open>F.I\<close> is its pseudo-inverse, and \<open>feedback\<close> returns
  a model, whatever the entries of the pseudo-inverse are.
\<close>

lemma feedback_nonsquare_F:
  "feedback_F (exact p) (siso 1 1 1 1 None) (simo None) (- 1) =
     Inr (elementwise (exact p) (-) (np_eye (exact p) 1)
            (dot (exact p) (smul (exact p) (- 1) (D (simo None))) (D (siso 1 1 1 1 None)))) \<and>
   map_sum id (\<lambda>r. shape (A r)) (feedback (exact p) (siso 1 1 1 1 None) (simo None) (- 1))
     = Inr (2, 2)"
  by (simp add: feedback_def feedback_matrices_def feedback_F_def siso_def simo_def matrix_I_def
      np_linalg_pinv_def np_sub_def np_add_def broadcastable_def StateSpace_init_def shape_def
      Let_def bdim_def)

lemma nonsquare_F_not_invertible:
  "\<not> invertible (elementwise (exact p) (-) (np_eye (exact p) 1)
       (dot (exact p) (smul (exact p) (- 1) (D (simo None))) (D (siso 1 1 1 1 None))))"
proof
  define F where
    "F = elementwise (exact p) (-) (np_eye (exact p) 1)
           (dot (exact p) (smul (exact p) (- 1) (D (simo None))) (D (siso 1 1 1 1 None)))"
  assume "invertible (elementwise (exact p) (-) (np_eye (exact p) 1)
       (dot (exact p) (smul (exact p) (- 1) (D (simo None))) (D (siso 1 1 1 1 None))))"
  then have "invertible F" by (simp add: F_def)
  have n: "nrows F = 2" "ncols F = 1"
    by (simp_all add: F_def simo_def siso_def bdim_def)
  have e: "entry F 0 0 = 1" "entry F 1 0 = 1"
    by (simp_all add: F_def simo_def siso_def elementwise_entry dot_def mm_def bidx_def)
  from \<open>invertible F\<close> obtain G :: "(real, unit) matrix" where
    G: "\<forall>i < 2. \<forall>j < 2. (\<Sum>k<1. entry F i k * entry G k j) = (if i = j then 1 else 0)"
    unfolding invertible_def n by blast
  from G have "entry F 0 0 * entry G 0 0 = 1" "entry F 1 0 * entry G 0 0 = 0"
    by auto
  with e show False by simp
qed

theorem feedback_closure_counterexample:
  "valid (test_ss None) \<and> valid (miso None) \<and>
   feedback (exact no_pinv) (test_ss None) (miso None) (- 1) = Inl ValueError_not_aligned \<and>
   valid (siso 1 1 1 1 None) \<and> valid (simo None) \<and>
   map_sum id shape (feedback_F (exact no_pinv) (siso 1 1 1 1 None) (simo None) (- 1))
     = Inr (2, 1) \<and>
   map_sum id invertible (feedback_F (exact no_pinv) (siso 1 1 1 1 None) (simo None) (- 1))
     = Inr False \<and>
   map_sum id (\<lambda>r. shape (A r))
     (feedback (exact no_pinv) (siso 1 1 1 1 None) (simo None) (- 1)) = Inr (2, 2)"
proof -
  have "feedback (exact no_pinv) (test_ss None) (miso None) (- 1) = Inl ValueError_not_aligned"
    by (simp add: feedback_def feedback_matrices_def feedback_F_def test_ss_def miso_def matmul_def)
  moreover have "shape (elementwise (exact no_pinv) (-) (np_eye (exact no_pinv) 1)
       (dot (exact no_pinv) (smul (exact no_pinv) (- 1) (D (simo None))) (D (siso 1 1 1 1 None))))
     = (2, 1)"
    by (simp add: shape_def simo_def siso_def bdim_def)
  ultimately show ?thesis
    using feedback_nonsquare_F [of no_pinv] nonsquare_F_not_invertible [of no_pinv] by simp
qed

text \<open>
  Claim C9. The model that \<open>feedback\<close> returns has no sampling time, whatever the
  sampling times of \<open>self\<close> and \<open>k\<close> are.
\<close>

theorem feedback_no_sampling_time:
  "feedback np self k sign = Inr r \<Longrightarrow> dt r = None"
  by (auto simp: feedback_def bindE_eq_Inr StateSpace_init_def split: if_splits)

text \<open>
  The test's model with the sampling time \<open>1/20\<close>, a gain with the sampling time \<open>1/10\<close>:
  the closed loop has none.
\<close>

theorem feedback_no_sampling_time_witness:
  "\<exists>r. feedback (exact no_pinv) (test_ss (Some (1/20))) (siso 0 0 0 1 (Some (1/10))) (- 1)
         = Inr r \<and> dt r = None"
proof -
  have io: "inputs (siso 0 0 0 1 (Some (1/10))) = outputs (test_ss (Some (1/20)))"
    "outputs (siso 0 0 0 1 (Some (1/10))) = inputs (test_ss (Some (1/20)))"
    by (simp_all add: siso_def test_ss_def)
  define F where
    "F = elementwise (exact no_pinv) (scalar_sub (exact no_pinv))
           (np_eye (exact no_pinv) (inputs (test_ss (Some (1/20)))))
           (dot (exact no_pinv) (smul (exact no_pinv) (- 1) (D (siso 0 0 0 1 (Some (1/10)))))
              (D (test_ss (Some (1/20)))))"
  have "np_linalg_inv (exact no_pinv) F \<noteq> Inl LinAlgError"
    by (subst exact_inv_1x1)
       (simp_all add: F_def test_ss_def siso_def elementwise_entry dot_def mm_def)
  with np_linalg_inv_Inl [of "exact no_pinv" F]
  obtain Fi where "np_linalg_inv (exact no_pinv) F = Inr Fi"
    by (cases "np_linalg_inv (exact no_pinv) F") auto
  from feedback_ok(2) [OF valid_test_ss valid_siso io F_def this]
  obtain r where
    r: "feedback (exact no_pinv) (test_ss (Some (1/20))) (siso 0 0 0 1 (Some (1/10))) (- 1) = Inr r"
    by blast
  from feedback_no_sampling_time [OF r] r show ?thesis by blast
qed
section \<open>Failures and result of \<open>place\<close>\<close>

lemma matrix_power_ok:
  "nrows M = ncols M \<Longrightarrow>
   \<exists>P. matrix_power np M i = Inr P \<and> nrows P = nrows M \<and> ncols P = ncols M"
  by (simp add: matrix_power_def)

lemma controllability_loop_ok:
  assumes "nrows (A self) = ncols (A self)" "nrows (B self) = nrows (A self)"
    and "nrows tmp = nrows (A self)"
  shows "\<exists>Co. controllability_loop np self is tmp = Inr Co \<and> nrows Co = nrows (A self) \<and>
     ncols Co = ncols tmp + length is * ncols (B self)"
  using assms(3)
proof (induction "is" arbitrary: tmp)
  case Nil
  then show ?case by simp
next
  case (Cons i "is")
  from matrix_power_ok [OF assms(1), of np i] obtain Ai where
    Ai: "matrix_power np (A self) i = Inr Ai" "nrows Ai = nrows (A self)"
      "ncols Ai = ncols (A self)"
    by blast
  let ?t = "hstack np tmp (dot np Ai (B self))"
  have step: "controllability_loop np self (i # is) tmp = controllability_loop np self is ?t"
    using assms(1,2) Cons.prems Ai by simp
  have "nrows ?t = nrows (A self)" using Cons.prems by simp
  from Cons.IH [OF this] show ?case unfolding step by auto
qed

lemma controllability_ok:
  assumes "valid self"
  shows "\<exists>Co. controllability np self = Inr Co \<and> nrows Co = nrows (A self) \<and>
     ncols Co = ncols (B self) + (nrows (A self) - 1) * ncols (B self)"
proof -
  note sh = valid_shapes [OF assms]
  from controllability_loop_ok [of self "B self" np "[1..<nrows (A self)]"] sh
  show ?thesis by (simp add: controllability_def)
qed

lemma controllable_rows_shape:
  assumes "nrows (A self) = ncols (A self)" "controllable_rows np p self is = Inr rows"
  shows "length rows = length is \<and> (\<forall>r \<in> set rows. len r = ncols (A self))"
  using assms(2)
proof (induction "is" arbitrary: rows)
  case Nil
  then show ?case by simp
next
  case (Cons i "is")
  from matrix_power_ok [OF assms(1), of np i] obtain Ai where
    Ai: "matrix_power np (A self) i = Inr Ai" "nrows Ai = nrows (A self)"
      "ncols Ai = ncols (A self)"
    by blast
  from Cons.prems Ai obtain row rows' where
    row: "vecmat np p Ai = Inr row"
    and rows': "controllable_rows np p self is = Inr rows'" and r: "rows = row # rows'"
    by (auto simp: bindE_eq_Inr)
  from row Ai have "len row = ncols (A self)"
    by (auto simp: vecmat_def split: if_splits)
  with Cons.IH [OF rows'] r show ?case by simp
qed

lemma np_mat_sel [simp]:
  "nrows (np_mat np (v # vs)) = Suc (length vs)" "ncols (np_mat np (v # vs)) = len v"
  "nrows (np_mat np []) = 1" "ncols (np_mat np []) = 0"
  by (simp_all add: np_mat_def Let_def)

lemma to_controllable_form_shape:
  assumes "valid self" "to_controllable_form np self = Inr T"
  shows "0 < nrows (A self) \<and> nrows T = nrows (A self) \<and> ncols T = nrows (A self)"
proof -
  note sh = valid_shapes [OF assms(1)]
  from assms(2) obtain p rows where
    rows: "controllable_rows np p self [0..<nrows (A self)] = Inr rows"
    and T: "np_linalg_inv np (np_mat np rows) = Inr T"
    by (auto simp: to_controllable_form_def bindE_eq_Inr)
  from controllable_rows_shape [OF sh(1) [symmetric] rows]
  have len: "length rows = nrows (A self)" "\<forall>r \<in> set rows. len r = nrows (A self)"
    by (simp_all add: sh)
  note inv = np_linalg_inv_Inr [OF T]
  from inv(1) have ne: "rows \<noteq> []" by auto
  with len have "0 < nrows (A self)" by (cases rows) auto
  moreover from ne len have "nrows (np_mat np rows) = nrows (A self)"
    by (cases rows) auto
  ultimately show ?thesis using inv by simp
qed

lemma last_row_ok:
  "0 < nrows M \<Longrightarrow> \<exists>a. last_row M = Inr a \<and> len a = ncols M"
  by (simp add: last_row_def)

lemma from_index_1_np_poly:
  "poles \<noteq> [] \<Longrightarrow> \<exists>p. from_index_1 (np_poly np poles) = Inr p \<and> len p = length poles"
  by (simp add: from_index_1_def np_poly_def)

lemma reversed_sel [simp]: "len (reversed v) = len v"
  by (simp add: reversed_def)

lemma place_after_T:
  assumes "valid self" and T: "to_controllable_form np self = Inr T"
    and Ti: "matrix_I np T = Inr Ti"
  shows "poles = [] \<Longrightarrow> place np self poles = Inl TypeError"
    and "2 \<le> length poles \<Longrightarrow> length poles \<noteq> nrows (A self) \<Longrightarrow>
         place np self poles = Inl ValueError_broadcast \<or>
         place np self poles = Inl ValueError_not_aligned"
    and "length poles = 1 \<or> length poles = nrows (A self) \<Longrightarrow>
         \<exists>K KTi. len K = nrows (A self) \<and> vecmat np K Ti = Inr KTi \<and>
           place np self poles = Inr (row_matrix KTi)"
proof -
  note sh = valid_shapes [OF assms(1)]
  from to_controllable_form_shape [OF assms(1) T]
  have n: "0 < nrows (A self)" and Tsh: "nrows T = nrows (A self)" "ncols T = nrows (A self)"
    by simp_all
  from Ti Tsh have "np_linalg_inv np T = Inr Ti" by (simp add: matrix_I_def)
  from np_linalg_inv_Inr(2,3) [OF this] Tsh
  have Tish: "nrows Ti = nrows (A self)" "ncols Ti = nrows (A self)"
    by simp_all
  define Ac where "Ac = dot np (dot np Ti (A self)) T"
  have Acsh: "nrows Ac = nrows (A self)" "ncols Ac = nrows (A self)"
    by (simp_all add: Ac_def Tish Tsh)
  from last_row_ok [of Ac] n Acsh obtain a where a: "last_row Ac = Inr a"
    and la: "len a = nrows (A self)" by auto
  have pre: "place np self poles =
      bindE (from_index_1 (np_poly np poles)) (\<lambda>p1.
        bindE (add_1d np (reversed (reversed p1)) a) (\<lambda>K.
          bindE (vecmat np K Ti) (\<lambda>KTi. Inr (row_matrix KTi))))"
    by (simp add: place_def T Ti Tish Tsh sh Let_def a [unfolded Ac_def])
  show "poles = [] \<Longrightarrow> place np self poles = Inl TypeError"
    using pre by (simp add: np_poly_def from_index_1_def)
  show "place np self poles = Inl ValueError_broadcast \<or>
         place np self poles = Inl ValueError_not_aligned"
    if "2 \<le> length poles" "length poles \<noteq> nrows (A self)"
  proof -
    from that have "poles \<noteq> []" by auto
    from from_index_1_np_poly [OF this, of np] obtain p where
      p: "from_index_1 (np_poly np poles) = Inr p" and lp: "len p = length poles"
      by blast
    show ?thesis
    proof (cases "nrows (A self) = 1")
      case True
      with that have "\<exists>K. add_1d np (reversed (reversed p)) a = Inr K \<and> len K = length poles"
        by (simp add: add_1d_def lp la broadcastable_def bdim_def)
      then obtain K where "add_1d np (reversed (reversed p)) a = Inr K" "len K = length poles"
        by blast
      with that True show ?thesis
        by (simp add: pre p vecmat_def Tish)
    next
      case False
      with that have "add_1d np (reversed (reversed p)) a = Inl ValueError_broadcast"
        by (simp add: add_1d_def lp la broadcastable_def)
      then show ?thesis by (simp add: pre p)
    qed
  qed
  show "\<exists>K KTi. len K = nrows (A self) \<and> vecmat np K Ti = Inr KTi \<and>
           place np self poles = Inr (row_matrix KTi)"
    if "length poles = 1 \<or> length poles = nrows (A self)"
  proof -
    from that n have "poles \<noteq> []" by auto
    from from_index_1_np_poly [OF this, of np] obtain p where
      p: "from_index_1 (np_poly np poles) = Inr p" and lp: "len p = length poles"
      by blast
    from that have "\<exists>K. add_1d np (reversed (reversed p)) a = Inr K \<and> len K = nrows (A self)"
      by (auto simp: add_1d_def lp la broadcastable_def bdim_def)
    then obtain K where K: "add_1d np (reversed (reversed p)) a = Inr K"
      and lK: "len K = nrows (A self)"
      by blast
    from lK obtain KTi where KTi: "vecmat np K Ti = Inr KTi"
      by (auto simp: vecmat_def Tish)
    show ?thesis using K lK KTi by (auto simp: pre p)
  qed
qed

lemma place_no_Ti:
  assumes "to_controllable_form np self = Inr T" "matrix_I np T = Inl e"
  shows "place np self poles = Inl e"
  using assms by (simp add: place_def)

lemma to_controllable_form_single_input:
  assumes "valid self" "inputs self = 1" "0 < nrows (A self)"
  shows "\<exists>Co. controllability np self = Inr Co \<and>
      shape Co = (nrows (A self), nrows (A self)) \<and>
      (np_linalg_inv np Co = Inl LinAlgError \<longrightarrow>
         to_controllable_form np self = Inl LinAlgError)"
proof -
  note sh = valid_shapes [OF assms(1)]
  from controllability_ok [OF assms(1), of np] obtain Co where
    Co: "controllability np self = Inr Co"
    and r: "nrows Co = nrows (A self)"
    and c: "ncols Co = ncols (B self) + (nrows (A self) - 1) * ncols (B self)"
    by blast
  from c assms(2,3) sh have c': "ncols Co = nrows (A self)" by simp
  have "np_linalg_inv np Co = Inl LinAlgError \<longrightarrow>
      to_controllable_form np self = Inl LinAlgError"
    by (simp add: to_controllable_form_def Co matrix_I_def r c')
  with Co r c' show ?thesis by (auto simp: shape_def)
qed

lemmas inv_eval = np_linalg_inv_def gauss_jordan_def gj_step_def find_pivot_def swap_rows_def
  scale_row_def eliminate_def idm_def Let_def eval_nat_numeral

lemmas place_eval = place_def to_controllable_form_def controllability_def matrix_power_def
  to_rows_def dot_def mm_def matrix_I_def inv_eval np_mat_def row_matrix_def reversed_def
  last_row_def vecmat_def np_poly_def from_index_1_def poly_coeffs_def convolve_def add_1d_def
  broadcastable_def bdim_def bidx_def

lemma test_ss_T:
  "map_sum id to_rows (to_controllable_form (exact no_pinv) (test_ss None))
     = Inr [[1, 0], [0, 1]]"
  by (simp add: place_eval test_ss_def)

lemma uncontrollable_ss_Co:
  "controllability (exact no_pinv) uncontrollable_ss = Inr Co \<Longrightarrow>
   np_linalg_inv (exact no_pinv) Co = Inl LinAlgError"
  by (auto simp: controllability_def matrix_power_def uncontrollable_ss_def dot_def mm_def
      inv_eval)

lemma exact_T_inverted:
  assumes "valid self" "to_controllable_form (exact p) self = Inr T"
  shows "\<exists>Ti. matrix_I (exact p) T = Inr Ti"
proof -
  from assms(2) obtain M where "np_linalg_inv (exact p) M = Inr T"
    by (auto simp: to_controllable_form_def bindE_eq_Inr)
  from exact_inv_twice [OF this] to_controllable_form_shape [OF assms]
  show ?thesis by (simp add: matrix_I_def)
qed

text \<open>
  Claim C7, as the code has it. \<open>place\<close> fails with the error of \<open>to_controllable_form\<close>
  whenever that fails; for a model of one input and at least one state the controllability
  matrix is square, and this is numpy's error for a singular matrix whenever numpy's
  inversion of the controllability matrix fails. When \<open>to_controllable_form\<close> returns the
  transformation \<open>T\<close>, \<open>place\<close> fails with the error of the inversion of \<open>T\<close> if that
  fails. With \<open>T\<^sup>-\<^sup>1\<close> at hand it fails with a \<^verbatim>\<open>TypeError\<close> on the empty pole list and with
  a dimension error (a \<^verbatim>\<open>ValueError\<close> of numpy) on a pole list of two or more entries whose
  length is not the state order \<open>n\<close>. On a list of \<open>n\<close> poles, and also on a single pole,
  which numpy broadcasts against the \<open>n\<close> entries of the companion form's last row, it
  returns \<open>K T\<^sup>-\<^sup>1\<close>, a matrix of one row, for an array \<open>K\<close> of \<open>n\<close> entries in companion
  coordinates.
\<close>

theorem place_errors:
  assumes "valid self"
  shows
    "(\<forall>e. to_controllable_form np self = Inl e \<longrightarrow> place np self poles = Inl e) \<and>
     (inputs self = 1 \<and> 0 < nrows (A self) \<longrightarrow>
        (\<exists>Co. controllability np self = Inr Co \<and>
           shape Co = (nrows (A self), nrows (A self)) \<and>
           (np_linalg_inv np Co = Inl LinAlgError \<longrightarrow>
              to_controllable_form np self = Inl LinAlgError))) \<and>
     (\<forall>T. to_controllable_form np self = Inr T \<longrightarrow>
        (\<forall>e. matrix_I np T = Inl e \<longrightarrow> place np self poles = Inl e) \<and>
        (\<forall>Ti. matrix_I np T = Inr Ti \<longrightarrow>
           (poles = [] \<longrightarrow> place np self poles = Inl TypeError) \<and>
           (2 \<le> length poles \<and> length poles \<noteq> nrows (A self) \<longrightarrow>
              (\<exists>e. place np self poles = Inl e \<and> is_ShapeMismatch e)) \<and>
           (length poles = 1 \<or> length poles = nrows (A self) \<longrightarrow>
              (\<exists>K KTi. len K = nrows (A self) \<and> vecmat np K Ti = Inr KTi \<and>
                 place np self poles = Inr (row_matrix KTi)))))"
proof (intro conjI allI impI)
  fix e assume "to_controllable_form np self = Inl e"
  then show "place np self poles = Inl e" by (simp add: place_def)
next
  assume "inputs self = 1 \<and> 0 < nrows (A self)"
  then show "\<exists>Co. controllability np self = Inr Co \<and>
           shape Co = (nrows (A self), nrows (A self)) \<and>
           (np_linalg_inv np Co = Inl LinAlgError \<longrightarrow>
              to_controllable_form np self = Inl LinAlgError)"
    using to_controllable_form_single_input [OF assms] by blast
next
  fix T e assume "to_controllable_form np self = Inr T" "matrix_I np T = Inl e"
  then show "place np self poles = Inl e" by (rule place_no_Ti)
next
  fix T Ti assume h: "to_controllable_form np self = Inr T" "matrix_I np T = Inr Ti"
  assume "poles = []"
  with place_after_T(1) [OF assms h] show "place np self poles = Inl TypeError" by blast
next
  fix T Ti assume h: "to_controllable_form np self = Inr T" "matrix_I np T = Inr Ti"
  assume "2 \<le> length poles \<and> length poles \<noteq> nrows (A self)"
  with place_after_T(2) [OF assms h, of poles]
  show "\<exists>e. place np self poles = Inl e \<and> is_ShapeMismatch e" by auto
next
  fix T Ti assume h: "to_controllable_form np self = Inr T" "matrix_I np T = Inr Ti"
  assume "length poles = 1 \<or> length poles = nrows (A self)"
  with place_after_T(3) [OF assms h, of poles]
  show "\<exists>K KTi. len K = nrows (A self) \<and> vecmat np K Ti = Inr KTi \<and>
              place np self poles = Inr (row_matrix KTi)" by blast
qed

text \<open>
  In exact arithmetic: the model with the singular controllability matrix, and the
  test's model, whose transformation \<open>T\<close> is the identity, with no pole, three poles and
  two poles.
\<close>

theorem place_errors_witness:
  "place (exact no_pinv) uncontrollable_ss [- 1, - 2] = Inl LinAlgError \<and>
   place (exact no_pinv) (test_ss None) [] = Inl TypeError \<and>
   (\<exists>e. place (exact no_pinv) (test_ss None) [- 1, - 2, - 3] = Inl e \<and> is_ShapeMismatch e) \<and>
   (\<exists>KTi. place (exact no_pinv) (test_ss None) [- 1, - 2] = Inr (row_matrix KTi))"
proof -
  have u: "inputs uncontrollable_ss = 1 \<and> 0 < nrows (A uncontrollable_ss)"
    by (simp add: uncontrollable_ss_def)
  from place_errors [OF valid_uncontrollable_ss, of "exact no_pinv" "[- 1, - 2]"] u
    uncontrollable_ss_Co
  have 1: "place (exact no_pinv) uncontrollable_ss [- 1, - 2] = Inl LinAlgError"
    by blast
  have n: "nrows (A (test_ss None)) = 2" by (simp add: test_ss_def)
  from test_ss_T obtain T where T: "to_controllable_form (exact no_pinv) (test_ss None) = Inr T"
    by (cases "to_controllable_form (exact no_pinv) (test_ss None)") auto
  from exact_T_inverted [OF valid_test_ss T] obtain Ti where
    Ti: "matrix_I (exact no_pinv) T = Inr Ti" ..
  from place_errors [OF valid_test_ss, of "exact no_pinv" None "[]"] T Ti
  have 2: "place (exact no_pinv) (test_ss None) [] = Inl TypeError" by blast
  from place_errors [OF valid_test_ss, of "exact no_pinv" None "[- 1, - 2, - 3]"] T Ti
  have 3: "\<exists>e. place (exact no_pinv) (test_ss None) [- 1, - 2, - 3] = Inl e \<and>
      is_ShapeMismatch e"
    by (auto simp: n)
  from place_errors [OF valid_test_ss, of "exact no_pinv" None "[- 1, - 2]"] T Ti
  have 4: "\<exists>KTi. place (exact no_pinv) (test_ss None) [- 1, - 2] = Inr (row_matrix KTi)"
    by (auto simp: n)
  from 1 2 3 4 show ?thesis by blast
qed

text \<open>
  The claim as first stated has a dimension error for every pole list whose length is not
  \<open>n\<close>. The test's model has two states; on the single pole \<open>-1\<close> the desired coefficient
  \<open>[1]\<close> is broadcast against the last row \<open>[-4, -1/2]\<close> of the companion form, and \<open>place\<close>
  returns the gain \<open>[[-3, 1/2]]\<close>. On the empty list \<^verbatim>\<open>np.poly\<close> returns a float, and the
  error is the \<^verbatim>\<open>TypeError\<close> of indexing it.
\<close>

theorem place_errors_counterexample:
  "valid (test_ss None) \<and> length [- 1 :: real] \<noteq> nrows (A (test_ss None)) \<and>
   map_sum id to_rows (place (exact no_pinv) (test_ss None) [- 1]) = Inr [[- 3, 1 / 2]] \<and>
   length ([] :: real list) \<noteq> nrows (A (test_ss None)) \<and>
   place (exact no_pinv) (test_ss None) [] = Inl TypeError \<and> \<not> is_ShapeMismatch TypeError"
  by (simp add: place_eval test_ss_def valid_def shape_def)

text \<open>
  What the array \<open>K\<close> is, the theorem above leaves open. Line 253 reverses the desired
  coefficients to the order of the companion form's last row, lowest power first, and line
  255 reverses them again before adding. For the poles \<open>-1\<close> and \<open>-2\<close>, with the polynomial
  \<open>s\<^sup>2 + 3 s + 2\<close>, the test's model (last row \<open>[-4, -1/2]\<close>, \<open>T\<close> the identity) gets
  \<open>[3 - 4, 2 - 1/2]\<close> where the coefficients matched by their power give
  \<open>[2 - 4, 3 - 1/2]\<close>.
\<close>

lemma place_two_poles:
  "map_sum id to_rows (place (exact no_pinv) (test_ss None) [- 1, - 2]) = Inr [[- 1, 3 / 2]]"
  by (simp add: place_eval test_ss_def)

text \<open>
  Whether numpy's inversion of the controllability matrix fails is not the same as
  whether the matrix is singular. In exact arithmetic it is: for a model of one input,
  \<open>to_controllable_form\<close> fails whenever the controllability matrix has no inverse. In
  floating point the singular controllability matrix \<open>[[5, 15], [7, 21]]\<close> of \<open>A = 3 I\<close>,
  \<open>B = [[5], [7]]\<close> has the second pivot \<open>2\<^sup>-\<^sup>4\<^sup>9\<close>, numpy inverts it, and \<open>place\<close> returns a
  gain.
\<close>

lemma not_controllable_exact:
  assumes "valid self" "inputs self = 1" "0 < nrows (A self)"
  shows "\<exists>Co. controllability (exact p) self = Inr Co \<and>
      (\<not> invertible Co \<longrightarrow> place (exact p) self poles = Inl LinAlgError)"
proof -
  from to_controllable_form_single_input [OF assms, of "exact p"] obtain Co where
    Co: "controllability (exact p) self = Inr Co"
    and sh: "shape Co = (nrows (A self), nrows (A self))"
    and s: "np_linalg_inv (exact p) Co = Inl LinAlgError \<longrightarrow>
         to_controllable_form (exact p) self = Inl LinAlgError"
    by blast
  from sh have "nrows Co = ncols Co" by (simp add: shape_def)
  from exact_inv_singular [OF this, of p] s
  have "\<not> invertible Co \<longrightarrow> to_controllable_form (exact p) self = Inl LinAlgError"
    by simp
  with Co show ?thesis by (auto simp: place_def)
qed
section \<open>Names of the unknowns\<close>

declare str_nat.simps [simp del]

lemma lyapunov_p_nth:
  "j < n \<Longrightarrow> i < n \<Longrightarrow> lyapunov_p n ! j ! i = symbol_name i j"
  by (simp add: lyapunov_p_def)

lemma symbol_name_sym: "symbol_name i j = symbol_name j i"
  by (cases "i = j") (auto simp: symbol_name_def)

lemma lyapunov_p_mirrored:
  "j < n \<Longrightarrow> i < n \<Longrightarrow> lyapunov_p n ! j ! i = lyapunov_p n ! i ! j"
  by (simp add: lyapunov_p_nth symbol_name_sym)

lemma str_nat_digit: "n < 10 \<Longrightarrow> str_nat n = [digit n]"
  by (simp add: str_nat.simps)

lemma str_nat_step: "10 \<le> n \<Longrightarrow> str_nat n = str_nat (n div 10) @ [digit (n mod 10)]"
  by (subst str_nat.simps) simp

lemma str_nat_examples:
  "str_nat 0 = ''0''" "str_nat 10 = ''10''" "str_nat 101 = ''101''"
  by (simp_all add: str_nat_digit str_nat_step digit_def)

text \<open>
  Claim C6 says that the symmetric matrix is built from \<open>n (n + 1) / 2\<close> distinct unknowns.
  The two numbers of a name are written one after the other with nothing between them:
  for a model of 102 states or more, row 101, column 0 and row 10, column 10 both
  hold the symbol \<^verbatim>\<open>p_1010\<close>, so that two different places on and below the diagonal are
  one unknown.
\<close>

theorem lyapunov_symbols_collide:
  "lyapunov_p 102 ! 101 ! 0 = ''p_1010'' \<and> lyapunov_p 102 ! 10 ! 10 = ''p_1010'' \<and>
   \<not> inj_on (\<lambda>(j, i). lyapunov_p 102 ! j ! i) {(j, i). i \<le> j \<and> j < 102}"
proof -
  have a: "lyapunov_p 102 ! 101 ! 0 = ''p_1010''"
    by (simp add: lyapunov_p_nth symbol_name_def str_nat_examples)
  have b: "lyapunov_p 102 ! 10 ! 10 = ''p_1010''"
    by (simp add: lyapunov_p_nth symbol_name_def str_nat_examples)
  have "(101, 0) \<in> {(j, i). i \<le> j \<and> j < (102::nat)}" "(10, 10) \<in> {(j, i). i \<le> j \<and> j < (102::nat)}"
    by simp_all
  then have "\<not> inj_on (\<lambda>(j, i). lyapunov_p 102 ! j ! i) {(j, i). i \<le> j \<and> j < 102}"
    using a b by (auto dest!: inj_onD [where x = "(101, 0)" and y = "(10, 10)"])
  with a b show ?thesis by blast
qed

end
